theory Spec2Isabelle
  imports Main
begin

section \<open>Python values shared by the services\<close>

text \<open>
  Instants returned by \<^verbatim>\<open>datetime.now()\<close> are integers (and their ISO renderings are
  identified with them); a duration is the difference of two instants.  Every reading of the
  clock is an argument of the operation that performs it.
\<close>

type_synonym timestamp = int

text \<open>
  Exceptions are values.  \<^verbatim>\<open>OSError\<close> stands for the \<^verbatim>\<open>OSError\<close>/\<^verbatim>\<open>IOError\<close> family raised by
  file and process system calls, \<^verbatim>\<open>Exception\<close> for every \<^verbatim>\<open>raise Exception(...)\<close> of the
  sources, \<^verbatim>\<open>UnicodeDecodeError\<close> for bytes that are not UTF-8 where text is read or
  \<^verbatim>\<open>decode()\<close> is called, \<^verbatim>\<open>RecursionError\<close> for the JSON decoder on text nested deeper than
  the interpreter's limit.  All four are caught by \<^verbatim>\<open>except Exception\<close>; the last two are
  neither an \<^verbatim>\<open>IOError\<close> nor a \<^verbatim>\<open>json.JSONDecodeError\<close>.
\<close>

datatype py_exception =
    Exception string
  | OSError string
  | UnicodeDecodeError string
  | RecursionError string

fun str_exc :: "py_exception \<Rightarrow> string" where
  "str_exc (Exception m) = m"
| "str_exc (OSError m) = m"
| "str_exc (UnicodeDecodeError m) = m"
| "str_exc (RecursionError m) = m"

text \<open>A call returned (it did not raise).\<close>

fun returned :: "py_exception + 'a \<Rightarrow> bool" where
  "returned (Inr x) = True"
| "returned (Inl e) = False"

text \<open>
  Text is held as its UTF-8 bytes.  \<^verbatim>\<open>bytes.decode()\<close> accepts exactly the well-formed
  UTF-8 sequences (no overlong forms, no surrogates, nothing above \<^verbatim>\<open>U+10FFFF\<close>) and raises
  \<^verbatim>\<open>UnicodeDecodeError\<close> on anything else (the position that Python's message names is left
  out of the message).
\<close>

definition continuation :: "nat \<Rightarrow> bool" where
  "continuation b = (128 \<le> b \<and> b \<le> 191)"

fun utf8_valid :: "nat list \<Rightarrow> bool" where
  "utf8_valid [] = True"
| "utf8_valid (b # bs) =
     (if b < 128 then utf8_valid bs
      else if 194 \<le> b \<and> b \<le> 223
      then (case bs of
              c1 # r \<Rightarrow> continuation c1 \<and> utf8_valid r
            | _ \<Rightarrow> False)
      else if 224 \<le> b \<and> b \<le> 239
      then (case bs of
              c1 # c2 # r \<Rightarrow>
                (if b = 224 then 160 \<le> c1 \<and> c1 \<le> 191
                 else if b = 237 then 128 \<le> c1 \<and> c1 \<le> 159
                 else continuation c1)
                \<and> continuation c2 \<and> utf8_valid r
            | _ \<Rightarrow> False)
      else if 240 \<le> b \<and> b \<le> 244
      then (case bs of
              c1 # c2 # c3 # r \<Rightarrow>
                (if b = 240 then 144 \<le> c1 \<and> c1 \<le> 191
                 else if b = 244 then 128 \<le> c1 \<and> c1 \<le> 143
                 else continuation c1)
                \<and> continuation c2 \<and> continuation c3 \<and> utf8_valid r
            | _ \<Rightarrow> False)
      else False)"

definition decode :: "string \<Rightarrow> py_exception + string" where
  "decode raw =
     (if utf8_valid (map of_char raw) then Inr raw
      else Inl (UnicodeDecodeError ''utf-8 codec cannot decode the bytes''))"

text \<open>\<^verbatim>\<open>str(n)\<close> for a Python integer: decimal digits, with a leading minus sign.\<close>

definition digit_char :: "nat \<Rightarrow> char" where
  "digit_char d = char_of (48 + d)"

fun str_nat :: "nat \<Rightarrow> string" where
  "str_nat n = (if n < 10 then [digit_char n] else str_nat (n div 10) @ [digit_char (n mod 10)])"

declare str_nat.simps [simp del]

definition str_int :: "int \<Rightarrow> string" where
  "str_int i = (if i < 0 then CHR ''-'' # str_nat (nat (- i)) else str_nat (nat i))"

section \<open>The execution ledger (services/storage.py)\<close>

text \<open>
  A JSON file on disk, as \<^verbatim>\<open>open\<close>, \<^verbatim>\<open>read\<close> and the JSON decoder see it: absent; present
  but not readable (any \<^verbatim>\<open>OSError\<close> other than \<^verbatim>\<open>FileNotFoundError\<close>, with its message);
  holding bytes that are not UTF-8 (reading the text raises \<^verbatim>\<open>UnicodeDecodeError\<close>); empty or
  all white space; holding text nested so deeply that the decoder raises \<^verbatim>\<open>RecursionError\<close>;
  holding other text on which the decoder raises \<^verbatim>\<open>json.JSONDecodeError\<close> (with its message);
  or holding a document, that is, a JSON object of the shape the store writes.
\<close>

datatype 'a json_file =
    Missing
  | Unreadable string
  | Not_utf8 string
  | Blank
  | Too_deep string
  | Malformed string
  | Json 'a

record execution =
  exec_id :: int
  job_id :: "string option"
  job_name :: string
  source_dataset :: string
  target_dataset :: string
  replication_type :: string
  status :: string
  started_at :: timestamp
  completed_at :: "timestamp option"
  duration_seconds :: "int option"
  bytes_transferred :: int
  snapshot_name :: "string option"
  error_message :: "string option"
  log_output :: "string option"

text \<open>
  The history document is a dict; each of its two keys may be absent (\<open>None\<close>), which is
  what \<^verbatim>\<open>data.get('next_id', 1)\<close> and \<^verbatim>\<open>'executions' not in data\<close> test.
\<close>

record history_data =
  executions :: "execution list option"
  next_id :: "int option"

record notification =
  execution_id :: int
  notification_type :: string
  recipient :: string
  subject :: string
  body :: string
  sent_at :: timestamp
  n_status :: string
  n_error_message :: "string option"

record notification_data =
  notifications :: "notification list option"

text \<open>
  The files of one \<^verbatim>\<open>FileStorageService\<close>.  The log file is the list of messages appended to
  it (the bracketed time prefix of a line is left out).
\<close>

record storage =
  history_file :: "history_data json_file"
  notifications_file :: "notification_data json_file"
  log_file :: "string list"

text \<open>
  What the file system does to the writes of one ledger operation.  Each operation writes one
  JSON file (\<^verbatim>\<open>_write_json\<close>) and then appends one log line (\<^verbatim>\<open>_write_log\<close>); either
  \<^verbatim>\<open>open\<close> may raise an \<^verbatim>\<open>OSError\<close>, which no code of the service catches.
\<close>

datatype io_outcome = Io_ok | Write_json_fails string | Write_log_fails string

definition empty_history :: history_data where
  "empty_history = \<lparr>executions = None, next_id = None\<rparr>"

definition empty_notifications :: notification_data where
  "empty_notifications = \<lparr>notifications = None\<rparr>"

text \<open>
  \<^verbatim>\<open>_read_json\<close>: \<^verbatim>\<open>FileNotFoundError\<close> and \<^verbatim>\<open>json.JSONDecodeError\<close> (which an empty file
  raises too) are caught and answered with the empty dict \<^verbatim>\<open>{}\<close> (the first argument); any
  other exception of \<^verbatim>\<open>open\<close> or \<^verbatim>\<open>json.load\<close> propagates.
\<close>

fun read_json :: "'a \<Rightarrow> 'a json_file \<Rightarrow> py_exception + 'a" where
  "read_json dflt (Json d) = Inr d"
| "read_json dflt Missing = Inr dflt"
| "read_json dflt Blank = Inr dflt"
| "read_json dflt (Malformed detail) = Inr dflt"
| "read_json dflt (Unreadable detail) = Inl (OSError detail)"
| "read_json dflt (Not_utf8 detail) = Inl (UnicodeDecodeError detail)"
| "read_json dflt (Too_deep detail) = Inl (RecursionError detail)"

text \<open>
  \<^verbatim>\<open>_write_json\<close>, by its net effect: the target holds the new document, or the write raised
  and the target is as it was.  (Its system calls are in the section on file writes.)
\<close>

fun write_json :: "io_outcome \<Rightarrow> 'a \<Rightarrow> 'a json_file \<Rightarrow> py_exception + 'a json_file" where
  "write_json (Write_json_fails detail) d f = Inl (OSError detail)"
| "write_json io d f = Inr (Json d)"

fun write_log :: "io_outcome \<Rightarrow> string \<Rightarrow> string list \<Rightarrow> py_exception + string list" where
  "write_log (Write_log_fails detail) m l = Inl (OSError detail)"
| "write_log io m l = Inr (l @ [m])"

text \<open>\<^verbatim>\<open>_initialize_files\<close>, for the two files modelled: written only when absent.\<close>

definition initialize_files :: "storage \<Rightarrow> storage" where
  "initialize_files s =
     s\<lparr>history_file :=
          (if history_file s = Missing
           then Json \<lparr>executions = Some [], next_id = Some 1\<rparr> else history_file s),
       notifications_file :=
          (if notifications_file s = Missing
           then Json \<lparr>notifications = Some []\<rparr> else notifications_file s)\<rparr>"

text \<open>A data directory that holds nothing yet, and the service constructed on it.\<close>

definition empty_dir :: storage where
  "empty_dir = \<lparr>history_file = Missing, notifications_file = Missing, log_file = []\<rparr>"

definition new_storage :: storage where
  "new_storage = initialize_files empty_dir"

definition new_execution ::
  "int \<Rightarrow> timestamp \<Rightarrow> string option \<Rightarrow> string \<Rightarrow> string \<Rightarrow> string \<Rightarrow> string \<Rightarrow> execution" where
  "new_execution i now jid jname src tgt rtype =
     \<lparr>exec_id = i, job_id = jid, job_name = jname, source_dataset = src,
      target_dataset = tgt, replication_type = rtype, status = ''running'',
      started_at = now, completed_at = None, duration_seconds = None,
      bytes_transferred = 0, snapshot_name = None, error_message = None,
      log_output = None\<rparr>"

definition create_execution_record ::
  "io_outcome \<Rightarrow> timestamp \<Rightarrow> string option \<Rightarrow> string \<Rightarrow> string \<Rightarrow> string \<Rightarrow> string
     \<Rightarrow> storage \<Rightarrow> (py_exception + int) \<times> storage" where
  "create_execution_record io now jid jname src tgt rtype s =
     (case read_json empty_history (history_file s) of
        Inl e \<Rightarrow> (Inl e, s)
      | Inr data \<Rightarrow>
          let execution_id = (case next_id data of None \<Rightarrow> 1 | Some n \<Rightarrow> n);
              execution = new_execution execution_id now jid jname src tgt rtype;
              old = (case executions data of None \<Rightarrow> [] | Some es \<Rightarrow> es);
              data' = data\<lparr>executions := Some (old @ [execution]),
                           next_id := Some (execution_id + 1)\<rparr>
          in (case write_json io data' (history_file s) of
                Inl e \<Rightarrow> (Inl e, s)
              | Inr f \<Rightarrow>
                  (case write_log io (''Started execution #'' @ str_int execution_id @ '': '' @ jname)
                          (log_file s) of
                     Inl e \<Rightarrow> (Inl e, s\<lparr>history_file := f\<rparr>)
                   | Inr l \<Rightarrow> (Inr execution_id, s\<lparr>history_file := f, log_file := l\<rparr>))))"

text \<open>
  The loop of \<^verbatim>\<open>update_execution_record\<close> (and the aliasing of \<^verbatim>\<open>get_connection\<close>'s
  result with the loaded list): the first record that matches is changed, the loop ends
  there.
\<close>

fun update_first :: "('a \<Rightarrow> bool) \<Rightarrow> ('a \<Rightarrow> 'a) \<Rightarrow> 'a list \<Rightarrow> 'a list" where
  "update_first P f [] = []"
| "update_first P f (e # es) = (if P e then f e # es else e # update_first P f es)"

definition set_result ::
  "string \<Rightarrow> timestamp option \<Rightarrow> int option \<Rightarrow> int \<Rightarrow> string option \<Rightarrow> string option
     \<Rightarrow> string option \<Rightarrow> execution \<Rightarrow> execution" where
  "set_result st completed dur bytes snap err log e =
     e\<lparr>status := st, completed_at := completed, duration_seconds := dur,
       bytes_transferred := bytes, snapshot_name := snap, error_message := err,
       log_output := log\<rparr>"

definition update_execution_record ::
  "io_outcome \<Rightarrow> int \<Rightarrow> string \<Rightarrow> timestamp option \<Rightarrow> int option \<Rightarrow> int \<Rightarrow> string option
     \<Rightarrow> string option \<Rightarrow> string option \<Rightarrow> storage \<Rightarrow> (py_exception + unit) \<times> storage" where
  "update_execution_record io i st completed dur bytes snap err log s =
     (case read_json empty_history (history_file s) of
        Inl e \<Rightarrow> (Inl e, s)
      | Inr data \<Rightarrow>
          let data' = data\<lparr>executions :=
                        map_option (update_first (\<lambda>e. exec_id e = i)
                                      (set_result st completed dur bytes snap err log))
                          (executions data)\<rparr>
          in (case write_json io data' (history_file s) of
                Inl e \<Rightarrow> (Inl e, s)
              | Inr f \<Rightarrow>
                  (case write_log io (''Execution #'' @ str_int i @ '' completed: '' @ st)
                          (log_file s) of
                     Inl e \<Rightarrow> (Inl e, s\<lparr>history_file := f\<rparr>)
                   | Inr l \<Rightarrow> (Inr (), s\<lparr>history_file := f, log_file := l\<rparr>))))"

definition log_notification ::
  "io_outcome \<Rightarrow> timestamp \<Rightarrow> int \<Rightarrow> string \<Rightarrow> string \<Rightarrow> string \<Rightarrow> string \<Rightarrow> string
     \<Rightarrow> string option \<Rightarrow> storage \<Rightarrow> (py_exception + unit) \<times> storage" where
  "log_notification io now i ntype rcpt subj bdy st err s =
     (case read_json empty_notifications (notifications_file s) of
        Inl e \<Rightarrow> (Inl e, s)
      | Inr data \<Rightarrow>
          let n = \<lparr>execution_id = i, notification_type = ntype, recipient = rcpt,
                   subject = subj, body = bdy, sent_at = now, n_status = st,
                   n_error_message = err\<rparr>;
              old = (case notifications data of None \<Rightarrow> [] | Some ns \<Rightarrow> ns);
              data' = data\<lparr>notifications := Some (old @ [n])\<rparr>
          in (case write_json io data' (notifications_file s) of
                Inl e \<Rightarrow> (Inl e, s)
              | Inr f \<Rightarrow>
                  (case write_log io (''Notification sent to '' @ rcpt @ '': '' @ subj
                                        @ '' ('' @ st @ '')'') (log_file s) of
                     Inl e \<Rightarrow> (Inl e, s\<lparr>notifications_file := f\<rparr>)
                   | Inr l \<Rightarrow> (Inr (), s\<lparr>notifications_file := f, log_file := l\<rparr>))))"

text \<open>
  The records of the ledger as a reader of the history file finds them (none in a file that
  makes the reader raise).
\<close>

definition ledger_executions :: "storage \<Rightarrow> execution list" where
  "ledger_executions s =
     (case read_json empty_history (history_file s) of
        Inl e \<Rightarrow> []
      | Inr data \<Rightarrow> (case executions data of None \<Rightarrow> [] | Some es \<Rightarrow> es))"

text \<open>
  \<open>n\<close> sequential calls of \<^verbatim>\<open>create_execution_record\<close> (all writes succeeding), each with its
  own arguments; the ids returned, in call order, and the final state.  A call that raises
  ends the sequence.
\<close>

type_synonym create_args = "timestamp \<times> string option \<times> string \<times> string \<times> string \<times> string"

fun create_all :: "create_args list \<Rightarrow> storage \<Rightarrow> (py_exception + int list) \<times> storage" where
  "create_all [] s = (Inr [], s)"
| "create_all ((now, jid, jname, src, tgt, rtype) # rest) s =
     (case create_execution_record Io_ok now jid jname src tgt rtype s of
        (Inl e, s') \<Rightarrow> (Inl e, s')
      | (Inr i, s') \<Rightarrow>
          (case create_all rest s' of
             (Inl e, s'') \<Rightarrow> (Inl e, s'')
           | (Inr ids, s'') \<Rightarrow> (Inr (i # ids), s'')))"

text \<open>
  An execution created and completed by the code: on a new ledger, one
  \<^verbatim>\<open>create_execution_record\<close>, then the update to \<open>success\<close>.
\<close>

definition terminal_ledger :: storage where
  "terminal_ledger =
     snd (update_execution_record Io_ok 1 ''success'' (Some 7) (Some 2) 0 (Some ''tank/data@s1'')
            None (Some [])
            (snd (create_execution_record Io_ok 5 None ''nightly'' ''tank/data'' ''backup/data''
                    ''local'' new_storage)))"

section \<open>File writes (\<^verbatim>\<open>_write_json\<close> of the ledger, \<^verbatim>\<open>_save_connections\<close> of the registry)\<close>

text \<open>
  A path is its name split as \<^verbatim>\<open>pathlib\<close> does, into stem and final suffix;
  \<^verbatim>\<open>with_suffix\<close> replaces the suffix.
\<close>

datatype path = Path (stem: string) (suffix: string)

fun with_suffix :: "path \<Rightarrow> string \<Rightarrow> path" where
  "with_suffix (Path st _) suf = Path st suf"

text \<open>
  A file as other processes and a later restart see it: the document it holds (\<open>Missing\<close>
  when there is no file), its permission bits, and whether its content has been forced to the
  device since it was last written; and, while a writer has it open, the document that
  \<^verbatim>\<open>json.dump\<close> has put in the writer's buffer and that has not reached the file yet.
\<close>

record 'c disk_file =
  doc :: "'c json_file"
  mode :: nat
  synced :: bool
  pending :: "'c option"

type_synonym 'c fs = "path \<Rightarrow> 'c disk_file"

definition no_file :: "'c disk_file" where
  "no_file = \<lparr>doc = Missing, mode = 0, synced = False, pending = None\<rparr>"

text \<open>The permission bits of a file created by \<^verbatim>\<open>open(..., 'w')\<close> under umask 022.\<close>

definition default_mode :: nat where
  "default_mode = 420"

text \<open>\<^verbatim>\<open>0o600\<close>, owner read and write only.\<close>

definition owner_only :: nat where
  "owner_only = 384"

text \<open>
  The system calls the two writers make.  \<open>Open_w\<close> is \<^verbatim>\<open>open(p, 'w')\<close>: it creates the file
  or truncates it at once.  \<open>Dump\<close> is \<^verbatim>\<open>json.dump\<close> into the open file object: the text is
  buffered, and what reaches the file before the next flush is a proper prefix of it, which is
  blank or not JSON (shown here as the blank file the open left).  \<open>Flush\<close> and \<open>Close\<close> (the
  end of the \<^verbatim>\<open>with\<close> block) hand the buffer to the file, \<open>Fsync\<close> forces the file to the
  device, \<open>Replace\<close> is \<^verbatim>\<open>Path.replace\<close> (rename over the target).
\<close>

datatype 'c fs_op =
    Open_w path
  | Dump path 'c
  | Flush path
  | Fsync path
  | Close path
  | Replace path path
  | Chmod path nat

definition write_out :: "'c disk_file \<Rightarrow> 'c disk_file" where
  "write_out f =
     (case pending f of
        None \<Rightarrow> f
      | Some d \<Rightarrow> f\<lparr>doc := Json d, synced := False, pending := None\<rparr>)"

fun apply_op :: "'c fs_op \<Rightarrow> 'c fs \<Rightarrow> 'c fs" where
  "apply_op (Open_w p) fs =
     fs(p := \<lparr>doc = Blank,
               mode = (if doc (fs p) = Missing then default_mode else mode (fs p)),
               synced = False, pending = None\<rparr>)"
| "apply_op (Dump p d) fs = fs(p := (fs p)\<lparr>pending := Some d\<rparr>)"
| "apply_op (Flush p) fs = fs(p := write_out (fs p))"
| "apply_op (Fsync p) fs = fs(p := (fs p)\<lparr>synced := True\<rparr>)"
| "apply_op (Close p) fs = fs(p := write_out (fs p))"
| "apply_op (Replace a b) fs = (fs(b := fs a))(a := no_file)"
| "apply_op (Chmod p m) fs = fs(p := (fs p)\<lparr>mode := m\<rparr>)"

fun run_ops :: "'c fs_op list \<Rightarrow> 'c fs \<Rightarrow> 'c fs" where
  "run_ops [] fs = fs"
| "run_ops (op # ops) fs = run_ops ops (apply_op op fs)"

text \<open>
  \<^verbatim>\<open>_write_json(file_path, data)\<close>: the temporary file is opened, dumped into and closed (the
  \<^verbatim>\<open>with\<close> block), then renamed over the target.
\<close>

definition write_json_ops :: "path \<Rightarrow> 'c \<Rightarrow> 'c fs_op list" where
  "write_json_ops file_path data =
     (let temp_file = with_suffix file_path ''.tmp''
      in [Open_w temp_file, Dump temp_file data, Close temp_file, Replace temp_file file_path])"

text \<open>
  \<^verbatim>\<open>_save_connections\<close>: the connections file itself is opened for writing, dumped into,
  flushed, fsynced and closed, then its mode is set to \<^verbatim>\<open>0o600\<close>.
\<close>

definition save_connections_ops :: "path \<Rightarrow> 'c \<Rightarrow> 'c fs_op list" where
  "save_connections_ops connections_file data =
     [Open_w connections_file, Dump connections_file data, Flush connections_file,
      Fsync connections_file, Close connections_file, Chmod connections_file owner_only]"

text \<open>
  The states of the target that another process, or a restart after a crash, can find while
  the calls run: one after each prefix of the calls.
\<close>

definition states_during :: "'c fs_op list \<Rightarrow> 'c fs \<Rightarrow> 'c fs list" where
  "states_during ops fs = map (\<lambda>k. run_ops (take k ops) fs) [0..<Suc (length ops)]"

text \<open>
  An atomic replacement of \<open>target\<close> by \<open>data\<close>: at every moment the target holds its old
  document or the whole new one.
\<close>

definition atomic_replace :: "'c fs_op list \<Rightarrow> path \<Rightarrow> 'c \<Rightarrow> 'c fs \<Rightarrow> bool" where
  "atomic_replace ops target data fs =
     list_all (\<lambda>fs'. doc (fs' target) = doc (fs target) \<or> doc (fs' target) = Json data)
       (states_during ops fs)"

text \<open>The target is written in place: some call opens the target itself for writing.\<close>

definition edits_in_place :: "'c fs_op list \<Rightarrow> path \<Rightarrow> bool" where
  "edits_in_place ops target = (Open_w target \<in> set ops)"

text \<open>The paths of the two backing files.\<close>

definition history_path :: path where
  "history_path = Path ''replication_history'' ''.json''"

definition connections_path :: path where
  "connections_path = Path ''ssh_connections'' ''.json''"

section \<open>The connection registry (services/ssh\<^verbatim>\<open>_\<close>connection.py)\<close>

record connection =
  conn_id :: string
  name :: string
  host :: string
  port :: int
  username :: string
  private_key_path :: string
  public_key_path :: string
  fingerprint :: string
  created_at :: timestamp
  last_used :: "timestamp option"
  last_tested :: "timestamp option"
  c_status :: string
  used_by :: "string list option"
  c_notes :: string

record connections_doc =
  connections :: "connection list option"

text \<open>
  The service: the disk that holds the connections file, the key files that exist in the
  keys directory, the in-memory \<^verbatim>\<open>self.connections_data\<close>, and the lines
  \<^verbatim>\<open>_load_connections\<close> and \<^verbatim>\<open>_save_connections\<close> hand to \<^verbatim>\<open>logger.error\<close>.
\<close>

record ssh_service =
  disk :: "connections_doc fs"
  key_files :: "string set"
  connections_data :: connections_doc
  error_log :: "string list"

definition keys_dir :: string where
  "keys_dir = ''~/.ssh/webzfs_connections''"

definition no_connections :: connections_doc where
  "no_connections = \<lparr>connections = Some []\<rparr>"

text \<open>
  \<^verbatim>\<open>_load_connections\<close>: the outcome of the call and the lines it logs.  A missing file and a
  blank one give \<^verbatim>\<open>{"connections": []}\<close>; \<^verbatim>\<open>json.JSONDecodeError\<close> and \<^verbatim>\<open>IOError\<close> are
  caught, logged, and answered with \<^verbatim>\<open>{"connections": []}\<close> too.  The handler names these
  two classes only: the \<^verbatim>\<open>UnicodeDecodeError\<close> of \<^verbatim>\<open>f.read()\<close> and the \<^verbatim>\<open>RecursionError\<close>
  of \<^verbatim>\<open>json.loads\<close> leave the function.
\<close>

fun load_connections :: "connections_doc json_file \<Rightarrow> (py_exception + connections_doc) \<times> string list" where
  "load_connections Missing = (Inr no_connections, [])"
| "load_connections Blank = (Inr no_connections, [])"
| "load_connections (Json d) = (Inr d, [])"
| "load_connections (Malformed detail) =
     (Inr no_connections, [''Failed to load connections: '' @ detail])"
| "load_connections (Unreadable detail) =
     (Inr no_connections, [''Failed to load connections: '' @ detail])"
| "load_connections (Not_utf8 detail) = (Inl (UnicodeDecodeError detail), [])"
| "load_connections (Too_deep detail) = (Inl (RecursionError detail), [])"

text \<open>The reload that opens every public operation: \<^verbatim>\<open>self.connections_data = self._load_connections()\<close>.\<close>

definition reload :: "ssh_service \<Rightarrow> (py_exception + unit) \<times> ssh_service" where
  "reload svc =
     (case load_connections (doc (disk svc connections_path)) of
        (Inl e, lines) \<Rightarrow> (Inl e, svc\<lparr>error_log := error_log svc @ lines\<rparr>)
      | (Inr d, lines) \<Rightarrow>
          (Inr (), svc\<lparr>connections_data := d, error_log := error_log svc @ lines\<rparr>))"

definition connection_list :: "connections_doc \<Rightarrow> connection list" where
  "connection_list d = (case connections d of None \<Rightarrow> [] | Some cs \<Rightarrow> cs)"

definition list_connections :: "ssh_service \<Rightarrow> (py_exception + connection list) \<times> ssh_service" where
  "list_connections svc =
     (case reload svc of
        (Inl e, svc') \<Rightarrow> (Inl e, svc')
      | (Inr u, svc') \<Rightarrow> (Inr (connection_list (connections_data svc')), svc'))"

definition get_connection ::
  "string \<Rightarrow> ssh_service \<Rightarrow> (py_exception + connection option) \<times> ssh_service" where
  "get_connection connection_id svc =
     (case reload svc of
        (Inl e, svc') \<Rightarrow> (Inl e, svc')
      | (Inr u, svc') \<Rightarrow>
          (Inr (find (\<lambda>c. conn_id c = connection_id) (connection_list (connections_data svc'))),
           svc'))"

text \<open>
  The system call of \<^verbatim>\<open>_save_connections\<close> that raises an \<^verbatim>\<open>IOError\<close>, when one does; the
  whole sequence stands inside one \<^verbatim>\<open>try\<close>, whose handler logs and raises
  \<^verbatim>\<open>Exception("Failed to save connections: ...")\<close>.  The calls before the failing one have
  taken effect, the failing one and the later ones have not (the \<^verbatim>\<open>with\<close> statement still
  closes the file: after a failed dump or fsync the buffer is empty and the close changes
  nothing, and after a failed flush the close flushes again and is taken to fail again).
\<close>

datatype save_step = At_open | At_dump | At_flush | At_fsync | At_close | At_chmod

fun step_index :: "save_step \<Rightarrow> nat" where
  "step_index At_open = 0"
| "step_index At_dump = 1"
| "step_index At_flush = 2"
| "step_index At_fsync = 3"
| "step_index At_close = 4"
| "step_index At_chmod = 5"

definition save_connections ::
  "(save_step \<times> string) option \<Rightarrow> ssh_service \<Rightarrow> (py_exception + unit) \<times> ssh_service" where
  "save_connections fault svc =
     (let ops = save_connections_ops connections_path (connections_data svc)
      in case fault of
           None \<Rightarrow> (Inr (), svc\<lparr>disk := run_ops ops (disk svc)\<rparr>)
         | Some (st, detail) \<Rightarrow>
             (Inl (Exception (''Failed to save connections: '' @ detail)),
              svc\<lparr>disk := run_ops (take (step_index st) ops) (disk svc),
                  error_log := error_log svc @ [''Failed to save connections: '' @ detail]\<rparr>))"

text \<open>
  \<^verbatim>\<open>mark_connection_used\<close>.  \<^verbatim>\<open>conn\<close> is the dict inside the list just loaded, so changing it
  changes \<^verbatim>\<open>self.connections_data\<close>, which \<^verbatim>\<open>_save_connections\<close> then writes.
\<close>

text \<open>\<^verbatim>\<open>conn.get("used_by", [])\<close>.\<close>

definition tags :: "connection \<Rightarrow> string list" where
  "tags conn = (case used_by conn of None \<Rightarrow> [] | Some u \<Rightarrow> u)"

definition add_feature :: "string \<Rightarrow> timestamp \<Rightarrow> connection \<Rightarrow> connection" where
  "add_feature feature now conn =
     conn\<lparr>used_by := Some (tags conn @ [feature]), last_used := Some now\<rparr>"

definition mark_connection_used ::
  "(save_step \<times> string) option \<Rightarrow> timestamp \<Rightarrow> string \<Rightarrow> string \<Rightarrow> ssh_service
     \<Rightarrow> (py_exception + unit) \<times> ssh_service" where
  "mark_connection_used fault now connection_id feature svc =
     (case get_connection connection_id svc of
        (Inl e, svc') \<Rightarrow> (Inl e, svc')
      | (Inr None, svc') \<Rightarrow> (Inr (), svc')
      | (Inr (Some conn), svc') \<Rightarrow>
          if feature \<in> set (tags conn)
          then (Inr (), svc')
          else save_connections fault
                 (svc'\<lparr>connections_data :=
                     (connections_data svc')\<lparr>connections :=
                        map_option (update_first (\<lambda>c. conn_id c = connection_id)
                                      (add_feature feature now))
                          (connections (connections_data svc'))\<rparr>\<rparr>))"

text \<open>The connections a caller of \<^verbatim>\<open>list_connections\<close> is given.\<close>

definition visible_connections :: "ssh_service \<Rightarrow> connection list" where
  "visible_connections svc =
     (case fst (list_connections svc) of Inl e \<Rightarrow> [] | Inr cs \<Rightarrow> cs)"

text \<open>A registry on disk that holds no connection, and a connection record.\<close>

definition example_connection :: connection where
  "example_connection =
     \<lparr>conn_id = ''c1'', name = ''backup host'', host = ''10.0.0.5'', port = 22,
      username = ''zfs'', private_key_path = ''~/.ssh/webzfs_connections/c1'',
      public_key_path = ''~/.ssh/webzfs_connections/c1.pub'', fingerprint = ''SHA256:abc'',
      created_at = 100, last_used = None, last_tested = Some 100, c_status = ''active'',
      used_by = Some [], c_notes = []\<rparr>"

definition example_disk :: "connections_doc fs" where
  "example_disk =
     (\<lambda>p. no_file)(connections_path :=
        \<lparr>doc = Json no_connections, mode = owner_only, synced = True, pending = None\<rparr>)"

text \<open>A service whose registry holds one connection, already marked as used by \<open>fleet\<close>.\<close>

definition example_service :: ssh_service where
  "example_service =
     \<lparr>disk = (\<lambda>p. no_file)(connections_path :=
               \<lparr>doc = Json \<lparr>connections = Some [example_connection\<lparr>used_by := Some [''fleet'']\<rparr>]\<rparr>,
                mode = owner_only, synced = True, pending = None\<rparr>),
      key_files = {''~/.ssh/webzfs_connections/c1'', ''~/.ssh/webzfs_connections/c1.pub''},
      connections_data = no_connections,
      error_log = []\<rparr>"

section \<open>Loading private keys\<close>

text \<open>
  \<^verbatim>\<open>str.strip()\<close> removes the white space of Python at both ends: the code points
  \<^verbatim>\<open>U+0009\<close>--\<^verbatim>\<open>U+000D\<close>, \<^verbatim>\<open>U+001C\<close>--\<^verbatim>\<open>U+0020\<close>, \<^verbatim>\<open>U+0085\<close>, \<^verbatim>\<open>U+00A0\<close>, \<^verbatim>\<open>U+1680\<close>,
  \<^verbatim>\<open>U+2000\<close>--\<^verbatim>\<open>U+200A\<close>, \<^verbatim>\<open>U+2028\<close>, \<^verbatim>\<open>U+2029\<close>, \<^verbatim>\<open>U+202F\<close>, \<^verbatim>\<open>U+205F\<close> and \<^verbatim>\<open>U+3000\<close>.
  On text held as UTF-8 bytes these are the one-byte characters 9--13 and 28--32, the
  two-byte sequences \<open>194 133\<close> and \<open>194 160\<close>, and the three-byte sequences \<open>225 154 128\<close>,
  \<open>226 128 b\<close> for \<open>b\<close> in 128--138, 168, 169 or 175, \<open>226 129 159\<close> and \<open>227 128 128\<close>.
  In well-formed UTF-8 such a sequence at the start or the end of a text is always a whole
  character, so the bytes can be matched as they stand.
\<close>

definition space1 :: "nat \<Rightarrow> bool" where
  "space1 b = ((9 \<le> b \<and> b \<le> 13) \<or> (28 \<le> b \<and> b \<le> 32))"

definition space2 :: "nat \<Rightarrow> nat \<Rightarrow> bool" where
  "space2 a b = (a = 194 \<and> (b = 133 \<or> b = 160))"

definition space3 :: "nat \<Rightarrow> nat \<Rightarrow> nat \<Rightarrow> bool" where
  "space3 a b c =
     ((a = 225 \<and> b = 154 \<and> c = 128)
      \<or> (a = 226 \<and> b = 128 \<and> ((128 \<le> c \<and> c \<le> 138) \<or> c = 168 \<or> c = 169 \<or> c = 175))
      \<or> (a = 226 \<and> b = 129 \<and> c = 159)
      \<or> (a = 227 \<and> b = 128 \<and> c = 128))"

text \<open>\<^verbatim>\<open>lstrip\<close> on the bytes read forwards.\<close>

fun lstrip :: "nat list \<Rightarrow> nat list" where
  "lstrip [] = []"
| "lstrip [a] = (if space1 a then [] else [a])"
| "lstrip [a, b] =
     (if space1 a then lstrip [b] else if space2 a b then [] else [a, b])"
| "lstrip (a # b # c # r) =
     (if space1 a then lstrip (b # c # r)
      else if space2 a b then lstrip (c # r)
      else if space3 a b c then lstrip r
      else a # b # c # r)"

text \<open>\<^verbatim>\<open>rstrip\<close> on the bytes read backwards (the last byte first).\<close>

fun rstrip_rev :: "nat list \<Rightarrow> nat list" where
  "rstrip_rev [] = []"
| "rstrip_rev [a] = (if space1 a then [] else [a])"
| "rstrip_rev [b, a] =
     (if space1 b then rstrip_rev [a] else if space2 a b then [] else [b, a])"
| "rstrip_rev (c # b # a # r) =
     (if space1 c then rstrip_rev (b # a # r)
      else if space2 b c then rstrip_rev (a # r)
      else if space3 a b c then rstrip_rev r
      else c # b # a # r)"

definition strip :: "string \<Rightarrow> string" where
  "strip s = map char_of (rev (rstrip_rev (rev (lstrip (map of_char s)))))"

text \<open>
  The four key classes of paramiko.  Their parser \<^verbatim>\<open>from_private_key_file\<close> belongs to the
  library, so it is a parameter \<open>parse\<close> of everything below: given a class and a path it
  returns a key or raises.
\<close>

datatype key_class = Ed25519Key | RSAKey | ECDSAKey | DSSKey

text \<open>
  The nested \<^verbatim>\<open>try\<close> statements of \<^verbatim>\<open>_create_ssh_client\<close> (fleet monitoring): each
  \<^verbatim>\<open>except Exception\<close> moves on to the next class; the last call is not guarded.
\<close>

definition load_private_key :: "(key_class \<Rightarrow> string \<Rightarrow> py_exception + 'k) \<Rightarrow> string \<Rightarrow> py_exception + 'k" where
  "load_private_key parse key_path =
     (case parse Ed25519Key key_path of
        Inr k \<Rightarrow> Inr k
      | Inl e1 \<Rightarrow>
          (case parse RSAKey key_path of
             Inr k \<Rightarrow> Inr k
           | Inl e2 \<Rightarrow>
               (case parse ECDSAKey key_path of
                  Inr k \<Rightarrow> Inr k
                | Inl e3 \<Rightarrow> parse DSSKey key_path)))"

text \<open>
  A server entry of the fleet: \<^verbatim>\<open>auth_type\<close>, \<^verbatim>\<open>ssh_key_path\<close> and \<^verbatim>\<open>password\<close> may be
  absent from the dict.
\<close>

record server =
  auth_type :: "string option"
  ssh_key_path :: "string option"
  srv_password :: "string option"

text \<open>Python truth of an optional string: present and not empty.\<close>

fun truthy :: "string option \<Rightarrow> bool" where
  "truthy None = False"
| "truthy (Some s) = (s \<noteq> [])"

text \<open>
  \<^verbatim>\<open>_create_ssh_client\<close>.  \<open>connect_key\<close> and \<open>connect_password\<close> are \<^verbatim>\<open>client.connect\<close> with
  the server's address and the given credential, \<open>decrypt\<close> is \<^verbatim>\<open>_decrypt_password\<close>; each
  returns or raises.  In the key branch one handler wraps whatever was raised, by the
  parsers or by the connection.
\<close>

definition create_ssh_client ::
  "(key_class \<Rightarrow> string \<Rightarrow> py_exception + 'k) \<Rightarrow> ('k \<Rightarrow> py_exception + 'c)
     \<Rightarrow> (string \<Rightarrow> py_exception + 'c) \<Rightarrow> (string \<Rightarrow> py_exception + string)
     \<Rightarrow> server \<Rightarrow> py_exception + 'c" where
  "create_ssh_client parse connect_key connect_password decrypt srv =
     (if (case auth_type srv of None \<Rightarrow> ''password'' | Some a \<Rightarrow> a) = ''key''
         \<and> truthy (ssh_key_path srv)
      then (case load_private_key parse (the (ssh_key_path srv)) of
              Inl e \<Rightarrow> Inl (Exception (''SSH key authentication failed: '' @ str_exc e))
            | Inr private_key \<Rightarrow>
                (case connect_key private_key of
                   Inl e \<Rightarrow> Inl (Exception (''SSH key authentication failed: '' @ str_exc e))
                 | Inr client \<Rightarrow> Inr client))
      else if \<not> truthy (srv_password srv)
      then Inl (Exception ''No password configured for password authentication'')
      else (case decrypt (the (srv_password srv)) of
              Inl e \<Rightarrow> Inl e
            | Inr password \<Rightarrow> connect_password password))"

text \<open>
  \<^verbatim>\<open>_test_key_auth\<close> (connection service): the key is parsed as Ed25519 only; \<open>session\<close>
  connects with the key, runs \<^verbatim>\<open>echo "test"\<close> and returns the bytes it printed, or raises;
  the bytes are decoded and stripped.  Any exception gives \<open>False\<close>.
\<close>

definition test_key_auth ::
  "(key_class \<Rightarrow> string \<Rightarrow> py_exception + 'k) \<Rightarrow> ('k \<Rightarrow> py_exception + string) \<Rightarrow> string \<Rightarrow> bool" where
  "test_key_auth parse session private_path =
     (case parse Ed25519Key private_path of
        Inl e \<Rightarrow> False
      | Inr key \<Rightarrow>
          (case session key of
             Inl e \<Rightarrow> False
           | Inr out \<Rightarrow>
               (case decode out of
                  Inl e \<Rightarrow> False
                | Inr result \<Rightarrow> strip result = ''test'')))"

text \<open>
  The loader as the specification words it: the four formats are tried in the order
  Ed25519, RSA, ECDSA, DSA, the first success wins, and \<open>KeyFormatUnsupported\<close> is raised
  when all four fail.
\<close>

datatype spec_error = KeyFormatUnsupported

fun first_parsed :: "key_class list \<Rightarrow> (key_class \<Rightarrow> string \<Rightarrow> py_exception + 'k) \<Rightarrow> string \<Rightarrow> 'k option" where
  "first_parsed [] parse p = None"
| "first_parsed (c # cs) parse p =
     (case parse c p of Inr k \<Rightarrow> Some k | Inl e \<Rightarrow> first_parsed cs parse p)"

definition spec_load_private_key ::
  "(key_class \<Rightarrow> string \<Rightarrow> py_exception + 'k) \<Rightarrow> string \<Rightarrow> spec_error + 'k" where
  "spec_load_private_key parse p =
     (case first_parsed [Ed25519Key, RSAKey, ECDSAKey, DSSKey] parse p of
        Some k \<Rightarrow> Inr k
      | None \<Rightarrow> Inl KeyFormatUnsupported)"

text \<open>
  Two key files for the examples: one in RSA format (only the RSA class parses it; a parsed
  key is shown as its class and path) and one in no known format.
\<close>

definition rsa_file_parser :: "key_class \<Rightarrow> string \<Rightarrow> py_exception + key_class \<times> string" where
  "rsa_file_parser c p =
     (if c = RSAKey then Inr (c, p) else Inl (Exception ''not a valid private key file''))"

definition junk_file_parser :: "key_class \<Rightarrow> string \<Rightarrow> py_exception + key_class \<times> string" where
  "junk_file_parser c p =
     (if c = DSSKey then Inl (Exception ''not a valid DSA private key file'')
      else Inl (Exception ''not a valid private key file''))"

section \<open>Provisioning a connection (\<^verbatim>\<open>create_connection\<close>)\<close>

text \<open>
  What \<^verbatim>\<open>ssh-keygen\<close> and the two \<^verbatim>\<open>os.chmod\<close> calls of \<^verbatim>\<open>_generate_ssh_key\<close> do: all
  succeed; \<^verbatim>\<open>ssh-keygen\<close> exits non-zero (with its standard error); it cannot be run or
  times out; or the keys are written and a \<^verbatim>\<open>chmod\<close> raises.
\<close>

datatype keygen_outcome =
    Keygen_ok
  | Keygen_exit string
  | Keygen_raises string
  | Keygen_chmod_raises string

definition generate_ssh_key ::
  "keygen_outcome \<Rightarrow> string \<Rightarrow> ssh_service \<Rightarrow> (py_exception + string \<times> string) \<times> ssh_service" where
  "generate_ssh_key outcome connection_id svc =
     (let private_path = keys_dir @ ''/'' @ connection_id;
          public_path = keys_dir @ ''/'' @ connection_id @ ''.pub'';
          written = svc\<lparr>key_files := key_files svc \<union> {private_path, public_path}\<rparr>
      in case outcome of
           Keygen_ok \<Rightarrow> (Inr (private_path, public_path), written)
         | Keygen_exit err \<Rightarrow> (Inl (Exception (''Failed to generate SSH key: '' @ err)), svc)
         | Keygen_raises m \<Rightarrow> (Inl (Exception (''Failed to generate SSH key: '' @ m)), svc)
         | Keygen_chmod_raises m \<Rightarrow>
             (Inl (Exception (''Failed to generate SSH key: '' @ m)), written))"

text \<open>
  \<^verbatim>\<open>_copy_key_to_remote\<close>.  Method 1 runs when \<^verbatim>\<open>sshpass\<close> and \<^verbatim>\<open>ssh-copy-id\<close> are installed
  and wins when it exits with 0; otherwise method 2 (paramiko) connects with the password and
  appends the key, and wins when the append command exits with 0.  Every exception of either
  method is caught and counts as a failure of that method.  (The public key file, written
  just before by key generation, is taken to be readable.)
\<close>

datatype copy_id_outcome = Tools_absent | Copy_id_exit int | Copy_id_raises string

datatype paramiko_copy_outcome =
    Authentication_exception
  | Ssh_exception string
  | Other_exception string
  | Append_exit int

definition copy_key_to_remote :: "copy_id_outcome \<Rightarrow> paramiko_copy_outcome \<Rightarrow> bool" where
  "copy_key_to_remote m1 m2 =
     (let method2 = (case m2 of Append_exit exit_status \<Rightarrow> exit_status = 0 | _ \<Rightarrow> False)
      in case m1 of
           Copy_id_exit returncode \<Rightarrow> (if returncode = 0 then True else method2)
         | _ \<Rightarrow> method2)"

text \<open>
  Everything one run of \<^verbatim>\<open>create_connection\<close> gets from outside: the uuid, the outcomes of
  key generation and of the two copy methods, the fingerprint \<^verbatim>\<open>_get_key_fingerprint\<close>
  returns (it never raises), the two clock readings, the failing call of
  \<^verbatim>\<open>_save_connections\<close> if any, and whether \<^verbatim>\<open>unlink\<close> raises in the clean-up.
\<close>

record provision_env =
  new_uuid :: string
  keygen :: keygen_outcome
  copy_id :: copy_id_outcome
  paramiko_copy :: paramiko_copy_outcome
  fingerprint_found :: string
  now_created :: timestamp
  now_tested :: timestamp
  save_fault :: "(save_step \<times> string) option"
  unlink_private_raises :: bool
  unlink_public_raises :: bool

text \<open>
  The handler's clean-up: both \<^verbatim>\<open>unlink\<close> calls stand in one \<^verbatim>\<open>try\<close> whose
  \<^verbatim>\<open>except: pass\<close> swallows a failure, so a failing first call skips the second.
\<close>

definition cleanup_keys :: "provision_env \<Rightarrow> string \<Rightarrow> string \<Rightarrow> ssh_service \<Rightarrow> ssh_service" where
  "cleanup_keys env private_path public_path svc =
     (if unlink_private_raises env then svc
      else let svc1 = svc\<lparr>key_files := key_files svc - {private_path}\<rparr>
           in if unlink_public_raises env then svc1
              else svc1\<lparr>key_files := key_files svc1 - {public_path}\<rparr>)"

text \<open>The body of the \<^verbatim>\<open>try\<close> after the keys exist.\<close>

definition provision_steps ::
  "(key_class \<Rightarrow> string \<Rightarrow> py_exception + 'k) \<Rightarrow> ('k \<Rightarrow> py_exception + string) \<Rightarrow> provision_env
     \<Rightarrow> string \<Rightarrow> string \<Rightarrow> string \<Rightarrow> int \<Rightarrow> string \<Rightarrow> string \<Rightarrow> string
     \<Rightarrow> ssh_service \<Rightarrow> (py_exception + string) \<times> ssh_service" where
  "provision_steps parse session env nm hst usr prt nts private_path public_path svc =
     (if \<not> copy_key_to_remote (copy_id env) (paramiko_copy env)
      then (Inl (Exception ''Failed to copy SSH key to remote server. Check credentials and network connectivity.''), svc)
      else if \<not> test_key_auth parse session private_path
      then (Inl (Exception ''SSH key authentication test failed. Key may not have been installed correctly.''), svc)
      else
        let connection =
              \<lparr>conn_id = new_uuid env, name = nm, host = hst, port = prt, username = usr,
               private_key_path = private_path, public_key_path = public_path,
               fingerprint = fingerprint_found env, created_at = now_created env,
               last_used = None, last_tested = Some (now_tested env), c_status = ''active'',
               used_by = Some [], c_notes = nts\<rparr>;
            data = (connections_data svc)\<lparr>connections :=
                      Some (connection_list (connections_data svc) @ [connection])\<rparr>
        in case save_connections (save_fault env) (svc\<lparr>connections_data := data\<rparr>) of
             (Inl e, svc') \<Rightarrow> (Inl e, svc')
           | (Inr u, svc') \<Rightarrow> (Inr (new_uuid env), svc'))"

text \<open>
  \<^verbatim>\<open>create_connection\<close>.  The password is used by the copy step only (whose outcome is in
  \<open>env\<close>) and appears in no record.  When key generation raises, the handler finds no key
  paths among its locals and unlinks nothing.
\<close>

definition create_connection ::
  "(key_class \<Rightarrow> string \<Rightarrow> py_exception + 'k) \<Rightarrow> ('k \<Rightarrow> py_exception + string) \<Rightarrow> provision_env
     \<Rightarrow> string \<Rightarrow> string \<Rightarrow> string \<Rightarrow> string \<Rightarrow> int \<Rightarrow> string
     \<Rightarrow> ssh_service \<Rightarrow> (py_exception + string) \<times> ssh_service" where
  "create_connection parse session env nm hst usr password prt nts svc0 =
     (case reload svc0 of
        (Inl e, svc) \<Rightarrow> (Inl e, svc)
      | (Inr u, svc) \<Rightarrow>
          (case generate_ssh_key (keygen env) (new_uuid env) svc of
             (Inl e, svc1) \<Rightarrow>
               (Inl (Exception (''Failed to create SSH connection: '' @ str_exc e)), svc1)
           | (Inr (private_path, public_path), svc1) \<Rightarrow>
               (case provision_steps parse session env nm hst usr prt nts
                       private_path public_path svc1 of
                  (Inr connection_id, svc2) \<Rightarrow> (Inr connection_id, svc2)
                | (Inl e, svc2) \<Rightarrow>
                    (Inl (Exception (''Failed to create SSH connection: '' @ str_exc e)),
                     cleanup_keys env private_path public_path svc2))))"

text \<open>
  A run of \<^verbatim>\<open>create_connection\<close> for the examples: a service with nothing on disk, a freshly
  generated key (which the Ed25519 class parses), a host that accepts the key and prints
  \<open>test\<close>, and an environment in which every step succeeds except the last call of
  \<^verbatim>\<open>_save_connections\<close>, the \<^verbatim>\<open>chmod\<close>.
\<close>

definition empty_service :: ssh_service where
  "empty_service =
     \<lparr>disk = (\<lambda>p. no_file), key_files = {}, connections_data = no_connections,
      error_log = []\<rparr>"

definition ed25519_file_parser :: "key_class \<Rightarrow> string \<Rightarrow> py_exception + key_class \<times> string" where
  "ed25519_file_parser c p =
     (if c = Ed25519Key then Inr (c, p) else Inl (Exception ''not a valid private key file''))"

definition echo_session :: "key_class \<times> string \<Rightarrow> py_exception + string" where
  "echo_session k = Inr (''test'' @ [CHR 0x0A])"

definition chmod_fault_env :: provision_env where
  "chmod_fault_env =
     \<lparr>new_uuid = ''u1'', keygen = Keygen_ok, copy_id = Copy_id_exit 0,
      paramiko_copy = Authentication_exception, fingerprint_found = ''SHA256:xyz'',
      now_created = 10, now_tested = 11,
      save_fault = Some (At_chmod, ''Operation not permitted''),
      unlink_private_raises = False, unlink_public_raises = False\<rparr>"

text \<open>An environment in which the password is wrong: no helper tool, paramiko is refused.\<close>

definition wrong_password_env :: provision_env where
  "wrong_password_env =
     \<lparr>new_uuid = ''u2'', keygen = Keygen_ok, copy_id = Tools_absent,
      paramiko_copy = Authentication_exception, fingerprint_found = ''SHA256:xyz'',
      now_created = 10, now_tested = 11, save_fault = None,
      unlink_private_raises = False, unlink_public_raises = False\<rparr>"

section \<open>The replication engine (services/zfs\<^verbatim>\<open>_\<close>replication.py)\<close>

datatype ReplicationType = PUSH | PULL | LOCAL

fun replication_type_value :: "ReplicationType \<Rightarrow> string" where
  "replication_type_value PUSH = ''push''"
| "replication_type_value PULL = ''pull''"
| "replication_type_value LOCAL = ''local''"

datatype CompressionMethod = NONE | LZ4 | GZIP | ZSTD

text \<open>
  The options bag, by the keys the engine reads: \<^verbatim>\<open>remote_host\<close>, \<^verbatim>\<open>remote_port\<close> and
  \<^verbatim>\<open>ssh_key\<close> may be absent; \<^verbatim>\<open>force\<close> is read for its truth only.
\<close>

record options =
  remote_host :: "string option"
  remote_port :: "int option"
  ssh_key :: "string option"
  force :: bool

text \<open>\<^verbatim>\<open>s.split(c)\<close> for a one-character separator, and \<^verbatim>\<open>sep.join(xs)\<close>.\<close>

fun split_on :: "char \<Rightarrow> string \<Rightarrow> string list" where
  "split_on c [] = [ [] ]"
| "split_on c (x # xs) =
     (if x = c then [] # split_on c xs
      else (case split_on c xs of [] \<Rightarrow> [ [x] ] | w # ws \<Rightarrow> (x # w) # ws))"

fun join :: "string \<Rightarrow> string list \<Rightarrow> string" where
  "join sep [] = []"
| "join sep [x] = x"
| "join sep (x # y # ys) = x @ sep @ join sep (y # ys)"

text \<open>
  A finished \<^verbatim>\<open>subprocess.run\<close> or \<^verbatim>\<open>communicate\<close>: exit status and the two captured
  streams.  \<^verbatim>\<open>communicate\<close> gives the streams as bytes, which the engine decodes itself;
  \<^verbatim>\<open>subprocess.run(..., text=True)\<close> gives text.
\<close>

record proc_result =
  returncode :: int
  stdout :: string
  stderr :: string

text \<open>
  \<^verbatim>\<open>_get_snapshots\<close>, given what \<^verbatim>\<open>subprocess.run(['zfs', 'list', ...], check=True)\<close> did: it
  raised (the program could not be started, or its output could not be decoded; that
  exception is not caught), or the program ended and its output is text.  A non-zero exit
  is the \<^verbatim>\<open>CalledProcessError\<close> that is caught and answered with no snapshots.
\<close>

definition get_snapshots :: "py_exception + proc_result \<Rightarrow> py_exception + string list" where
  "get_snapshots outcome =
     (case outcome of
        Inl e \<Rightarrow> Inl e
      | Inr r \<Rightarrow>
          if returncode r \<noteq> 0 then Inr []
          else Inr (filter (\<lambda>l. l \<noteq> []) (map strip (split_on (CHR 0x0A) (stdout r)))))"

definition build_send_command ::
  "string \<Rightarrow> string \<Rightarrow> bool \<Rightarrow> bool \<Rightarrow> CompressionMethod \<Rightarrow> string list" where
  "build_send_command dataset snapshot incremental recursive compression =
     [''zfs'', ''send'']
     @ (if recursive then [''-R''] else [])
     @ (if compression \<noteq> NONE then [''-c'', ''-w''] else [])
     @ [snapshot]"

definition build_receive_command :: "string \<Rightarrow> ReplicationType \<Rightarrow> options \<Rightarrow> string list" where
  "build_receive_command target rtype opts =
     [''zfs'', ''receive''] @ (if force opts then [''-F''] else []) @ [target]"

text \<open>
  The command of the dry run in \<^verbatim>\<open>estimate_transfer_size\<close>, for a non-empty snapshot list:
  here the incremental base is passed.
\<close>

definition estimate_send_command :: "string list \<Rightarrow> bool \<Rightarrow> string list" where
  "estimate_send_command snapshots incremental =
     [''zfs'', ''send'', ''-nv'']
     @ (if incremental \<and> length snapshots > 1
        then [''-i'', snapshots ! (length snapshots - 2)] else [])
     @ [last snapshots]"

text \<open>
  The email service: its configuration, the \<^verbatim>\<open>SMTP_NOTIFY_ON_SUCCESS\<close> toggle, and what the
  SMTP exchange of \<^verbatim>\<open>_send_email\<close> does (\<open>None\<close>: the mail is sent; otherwise the message of
  the exception, which \<^verbatim>\<open>_send_email\<close> catches).
\<close>

record email_service =
  smtp_enabled :: bool
  smtp_host :: string
  notification_recipients :: "string list"
  notify_on_success :: bool
  smtp_error :: "string option"

datatype notification_result = Skipped string | Sent "string list" | Failed string

definition is_configured :: "email_service \<Rightarrow> bool" where
  "is_configured m = (smtp_enabled m \<and> smtp_host m \<noteq> [] \<and> notification_recipients m \<noteq> [])"

definition send_email :: "email_service \<Rightarrow> notification_result" where
  "send_email m =
     (case smtp_error m of None \<Rightarrow> Sent (notification_recipients m) | Some e \<Rightarrow> Failed e)"

definition send_job_failure_notification :: "email_service \<Rightarrow> notification_result" where
  "send_job_failure_notification m =
     (if \<not> is_configured m then Skipped ''Email notifications not configured''
      else send_email m)"

definition send_job_success_notification :: "email_service \<Rightarrow> notification_result" where
  "send_job_success_notification m =
     (if \<not> notify_on_success m then Skipped ''Success notifications not enabled''
      else if \<not> is_configured m then Skipped ''Email notifications not configured''
      else send_email m)"

text \<open>
  What the engine acts on: the ledger, and two records of what it did to the outside, the
  commands it started (in order) and the calls it made to the notification interface (the
  path called and the execution id).
\<close>

datatype notify_path = Success_path | Failure_path

record world =
  store :: storage
  spawned :: "string list list"
  attempts :: "(notify_path \<times> int) list"

text \<open>
  Everything one run of \<^verbatim>\<open>execute_replication\<close> gets from outside: the clock readings, what
  running \<^verbatim>\<open>zfs list\<close> did, what starting the send process did (an exception, or the exit
  status the process ends with, which nothing reads), what starting the receiving process and
  \<^verbatim>\<open>communicate\<close> did, and the fate of the file writes of each ledger call.
\<close>

record exec_env =
  start_time :: timestamp
  created_time :: timestamp
  end_time :: timestamp
  except_end_time :: timestamp
  sent_time :: timestamp
  zfs_list :: "py_exception + proc_result"
  popen_send :: "py_exception + int"
  popen_sink :: "py_exception + proc_result"
  create_io :: io_outcome
  update_io :: io_outcome
  notify_io :: io_outcome
  except_update_io :: io_outcome
  except_notify_io :: io_outcome

record transfer =
  t_bytes :: int
  t_speed :: string
  t_log_output :: string

text \<open>
  \<^verbatim>\<open>_execute_local_replication\<close>: both processes are started, only the receiving one is
  waited for and only its exit status is read.  Its standard error is decoded, for the error
  message after a non-zero exit and, when it is not empty, for the log after a zero exit;
  the \<^verbatim>\<open>UnicodeDecodeError\<close> of either \<^verbatim>\<open>decode()\<close> leaves the function.
\<close>

definition decoded_log :: "string \<Rightarrow> py_exception + string" where
  "decoded_log raw = (if raw = [] then Inr [] else decode raw)"

definition execute_local_replication ::
  "exec_env \<Rightarrow> string list \<Rightarrow> string list \<Rightarrow> world \<Rightarrow> (py_exception + transfer) \<times> world" where
  "execute_local_replication env send_cmd receive_cmd w =
     (let w1 = w\<lparr>spawned := spawned w @ [send_cmd]\<rparr>
      in case popen_send env of
           Inl e \<Rightarrow> (Inl e, w1)
         | Inr send_status \<Rightarrow>
             let w2 = w1\<lparr>spawned := spawned w1 @ [receive_cmd]\<rparr>
             in (case popen_sink env of
                   Inl e \<Rightarrow> (Inl e, w2)
                 | Inr receive_process \<Rightarrow>
                     if returncode receive_process \<noteq> 0
                     then (case decode (stderr receive_process) of
                             Inl e \<Rightarrow> (Inl e, w2)
                           | Inr text \<Rightarrow> (Inl (Exception (''Receive failed: '' @ text)), w2))
                     else (case decoded_log (stderr receive_process) of
                             Inl e \<Rightarrow> (Inl e, w2)
                           | Inr log \<Rightarrow>
                               (Inr \<lparr>t_bytes = 0, t_speed = ''N/A'', t_log_output = log\<rparr>,
                                w2))))"

definition execute_remote_replication ::
  "exec_env \<Rightarrow> string list \<Rightarrow> string list \<Rightarrow> ReplicationType \<Rightarrow> options \<Rightarrow> world
     \<Rightarrow> (py_exception + transfer) \<times> world" where
  "execute_remote_replication env send_cmd receive_cmd rtype opts w =
     (if \<not> truthy (remote_host opts)
      then (Inl (Exception ''remote_host required for remote replication''), w)
      else
        let ssh_cmd = [''ssh'', ''-p'',
                       str_int (case remote_port opts of None \<Rightarrow> 22 | Some p \<Rightarrow> p)]
                      @ (if truthy (ssh_key opts) then [''-i'', the (ssh_key opts)] else [])
                      @ [the (remote_host opts)] @ receive_cmd;
            w1 = w\<lparr>spawned := spawned w @ [send_cmd]\<rparr>
        in case popen_send env of
             Inl e \<Rightarrow> (Inl e, w1)
           | Inr send_status \<Rightarrow>
               let w2 = w1\<lparr>spawned := spawned w1 @ [ssh_cmd]\<rparr>
               in (case popen_sink env of
                     Inl e \<Rightarrow> (Inl e, w2)
                   | Inr ssh_process \<Rightarrow>
                       if returncode ssh_process \<noteq> 0
                       then (case decode (stderr ssh_process) of
                               Inl e \<Rightarrow> (Inl e, w2)
                             | Inr text \<Rightarrow>
                                 (Inl (Exception (''Remote receive failed: '' @ text)), w2))
                       else (case decoded_log (stderr ssh_process) of
                               Inl e \<Rightarrow> (Inl e, w2)
                             | Inr log \<Rightarrow>
                                 (Inr \<lparr>t_bytes = 0, t_speed = ''N/A'', t_log_output = log\<rparr>,
                                  w2))))"

text \<open>The result dict of \<^verbatim>\<open>execute_replication\<close>; the keys one branch leaves out are \<open>None\<close>.\<close>

record replication_result =
  r_status :: string
  r_source :: string
  r_target :: string
  r_snapshot :: "string option"
  r_started_at :: timestamp
  r_completed_at :: timestamp
  r_duration_seconds :: int
  r_bytes_transferred :: "int option"
  r_average_speed :: "string option"
  r_error :: "string option"
  r_execution_id :: int

text \<open>
  \<^verbatim>\<open>job_name or f"{source} \<dots> {target}"\<close>; the arrow between the two names is written in its
  three UTF-8 t_bytes.
\<close>

definition display_name :: "string option \<Rightarrow> string \<Rightarrow> string \<Rightarrow> string" where
  "display_name jname source target =
     (if truthy jname then the jname
      else source @ '' '' @ [CHR 0xE2, CHR 0x86, CHR 0x92] @ '' '' @ target)"

text \<open>A ledger call made by the engine: the world's store is replaced, the outcome passed on.\<close>

definition on_store ::
  "(storage \<Rightarrow> (py_exception + 'a) \<times> storage) \<Rightarrow> world \<Rightarrow> (py_exception + 'a) \<times> world" where
  "on_store f w = (case f (store w) of (r, s') \<Rightarrow> (r, w\<lparr>store := s'\<rparr>))"

text \<open>
  The body of the \<^verbatim>\<open>try\<close> of \<^verbatim>\<open>execute_replication\<close>, in its two halves.  First the
  transfer: the snapshots are listed, the last one is taken, the two commands are built and
  the pipeline is run.
\<close>

definition transfer_step ::
  "exec_env \<Rightarrow> string \<Rightarrow> string \<Rightarrow> ReplicationType \<Rightarrow> bool \<Rightarrow> bool \<Rightarrow> CompressionMethod
     \<Rightarrow> options \<Rightarrow> world \<Rightarrow> (py_exception + string \<times> transfer) \<times> world" where
  "transfer_step env source target rtype incremental recursive compression opts w =
     (let w0 = w\<lparr>spawned := spawned w @
                  [ [''zfs'', ''list'', ''-t'', ''snapshot'', ''-H'', ''-o'', ''name'', ''-r'', source] ]\<rparr>
      in case get_snapshots (zfs_list env) of
           Inl e \<Rightarrow> (Inl e, w0)
         | Inr snapshots \<Rightarrow>
             if snapshots = [] then (Inl (Exception (''No snapshots found for '' @ source)), w0)
             else
               let latest_snapshot = last snapshots;
                   send_cmd = build_send_command source latest_snapshot incremental recursive
                                compression;
                   receive_cmd = build_receive_command target rtype opts
               in (case (if rtype = LOCAL
                         then execute_local_replication env send_cmd receive_cmd w0
                         else execute_remote_replication env send_cmd receive_cmd rtype opts w0) of
                     (Inl e, w1) \<Rightarrow> (Inl e, w1)
                   | (Inr result, w1) \<Rightarrow> (Inr (latest_snapshot, result), w1)))"

text \<open>
  Then the book-keeping of a transfer that went well: the record is updated to \<open>success\<close>,
  the success path of the notification interface is called, and a mail that was sent is
  logged.
\<close>

definition record_success ::
  "email_service \<Rightarrow> exec_env \<Rightarrow> int \<Rightarrow> string \<Rightarrow> string \<Rightarrow> string option \<Rightarrow> string
     \<Rightarrow> transfer \<Rightarrow> world \<Rightarrow> (py_exception + replication_result) \<times> world" where
  "record_success mail env eid source target jname latest_snapshot result w1 =
     (let duration = end_time env - start_time env
      in case on_store (update_execution_record (update_io env) eid ''success''
                  (Some (end_time env)) (Some duration) (t_bytes result)
                  (Some latest_snapshot) None (Some (t_log_output result))) w1 of
           (Inl e, w2) \<Rightarrow> (Inl e, w2)
         | (Inr u, w2) \<Rightarrow>
             let notification_result = send_job_success_notification mail;
                 w3 = w2\<lparr>attempts := attempts w2 @ [(Success_path, eid)]\<rparr>;
                 res = \<lparr>r_status = ''success'', r_source = source, r_target = target,
                        r_snapshot = Some latest_snapshot, r_started_at = start_time env,
                        r_completed_at = end_time env, r_duration_seconds = duration,
                        r_bytes_transferred = Some (t_bytes result),
                        r_average_speed = Some (t_speed result),
                        r_error = None, r_execution_id = eid\<rparr>
             in (case notification_result of
                   Sent recipients \<Rightarrow>
                     (case on_store (log_notification (notify_io env) (sent_time env) eid
                             ''success'' (join '', '' recipients)
                             (''ZFS Replication Succeeded: '' @ display_name jname source target)
                             ''Success notification sent'' ''sent'' None) w3 of
                        (Inl e, w4) \<Rightarrow> (Inl e, w4)
                      | (Inr u, w4) \<Rightarrow> (Inr res, w4))
                 | Failed err \<Rightarrow> (Inr res, w3)
                 | Skipped m \<Rightarrow> (Inr res, w3)))"

definition try_body ::
  "email_service \<Rightarrow> exec_env \<Rightarrow> int \<Rightarrow> string \<Rightarrow> string \<Rightarrow> ReplicationType \<Rightarrow> bool \<Rightarrow> bool
     \<Rightarrow> CompressionMethod \<Rightarrow> string option \<Rightarrow> options \<Rightarrow> world
     \<Rightarrow> (py_exception + replication_result) \<times> world" where
  "try_body mail env eid source target rtype incremental recursive compression jname opts w =
     (case transfer_step env source target rtype incremental recursive compression opts w of
        (Inl e, w1) \<Rightarrow> (Inl e, w1)
      | (Inr (latest_snapshot, result), w1) \<Rightarrow>
          record_success mail env eid source target jname latest_snapshot result w1)"

text \<open>The \<^verbatim>\<open>except Exception as e\<close> handler of \<^verbatim>\<open>execute_replication\<close>.\<close>

definition except_handler ::
  "email_service \<Rightarrow> exec_env \<Rightarrow> int \<Rightarrow> string \<Rightarrow> string \<Rightarrow> string option \<Rightarrow> py_exception
     \<Rightarrow> world \<Rightarrow> (py_exception + replication_result) \<times> world" where
  "except_handler mail env eid source target jname e w =
     (let duration = except_end_time env - start_time env;
          msg = str_exc e
      in case on_store (update_execution_record (except_update_io env) eid ''failure''
                  (Some (except_end_time env)) (Some duration) 0 None (Some msg)
                  (Some msg)) w of
           (Inl e', w1) \<Rightarrow> (Inl e', w1)
         | (Inr u, w1) \<Rightarrow>
             let notification_result = send_job_failure_notification mail;
                 w2 = w1\<lparr>attempts := attempts w1 @ [(Failure_path, eid)]\<rparr>;
                 subj = ''ZFS Replication Failed: '' @ display_name jname source target;
                 res = \<lparr>r_status = ''failure'', r_source = source, r_target = target,
                        r_snapshot = None, r_started_at = start_time env,
                        r_completed_at = except_end_time env, r_duration_seconds = duration,
                        r_bytes_transferred = None, r_average_speed = None,
                        r_error = Some msg, r_execution_id = eid\<rparr>
             in (case notification_result of
                   Sent recipients \<Rightarrow>
                     (case on_store (log_notification (except_notify_io env) (sent_time env)
                             eid ''failure'' (join '', '' recipients) subj
                             msg ''sent'' None) w2 of
                        (Inl e', w3) \<Rightarrow> (Inl e', w3)
                      | (Inr u, w3) \<Rightarrow> (Inr res, w3))
                 | Failed err \<Rightarrow>
                     (case on_store (log_notification (except_notify_io env) (sent_time env)
                             eid ''failure'' ''N/A'' subj msg ''failed''
                             (Some err)) w2 of
                        (Inl e', w3) \<Rightarrow> (Inl e', w3)
                      | (Inr u, w3) \<Rightarrow> (Inr res, w3))
                 | Skipped m \<Rightarrow> (Inr res, w2)))"

definition execute_replication ::
  "email_service \<Rightarrow> exec_env \<Rightarrow> string \<Rightarrow> string \<Rightarrow> ReplicationType \<Rightarrow> bool \<Rightarrow> bool
     \<Rightarrow> CompressionMethod \<Rightarrow> string option \<Rightarrow> string option \<Rightarrow> options \<Rightarrow> world
     \<Rightarrow> (py_exception + replication_result) \<times> world" where
  "execute_replication mail env source target rtype incremental recursive compression
       jid jname opts w =
     (case on_store (create_execution_record (create_io env) (created_time env) jid
                 (display_name jname source target) source target
                 (replication_type_value rtype)) w of
        (Inl e, w0) \<Rightarrow> (Inl e, w0)
      | (Inr eid, w0) \<Rightarrow>
          (case try_body mail env eid source target rtype incremental
                  recursive compression jname opts w0 of
             (Inr res, w1) \<Rightarrow> (Inr res, w1)
           | (Inl e, w1) \<Rightarrow>
               except_handler mail env eid source target jname e w1))"

text \<open>
  Runs for the examples: a new ledger and nothing done yet; mail switched off; no options; a
  source with the two snapshots \<open>tank/data@s1\<close> and \<open>tank/data@s2\<close> whose transfer goes well;
  the same with a send process that ends with status 1 while the receive ends with 0; the
  same with a receive that ends with 0 after writing two bytes that are not UTF-8 to its
  standard error; a source without snapshots on a disk that is full by the time the handler
  runs.
\<close>

definition new_world :: world where
  "new_world = \<lparr>store = new_storage, spawned = [], attempts = []\<rparr>"

definition mail_off :: email_service where
  "mail_off = \<lparr>smtp_enabled = False, smtp_host = ''localhost'', notification_recipients = [],
                notify_on_success = False, smtp_error = None\<rparr>"

definition no_options :: options where
  "no_options = \<lparr>remote_host = None, remote_port = None, ssh_key = None, force = False\<rparr>"

definition two_snapshots_env :: exec_env where
  "two_snapshots_env =
     \<lparr>start_time = 100, created_time = 100, end_time = 103, except_end_time = 104,
      sent_time = 105,
      zfs_list = Inr \<lparr>returncode = 0,
                      stdout = ''tank/data@s1'' @ [CHR 0x0A] @ ''tank/data@s2'' @ [CHR 0x0A],
                      stderr = []\<rparr>,
      popen_send = Inr 0,
      popen_sink = Inr \<lparr>returncode = 0, stdout = [], stderr = []\<rparr>,
      create_io = Io_ok, update_io = Io_ok, notify_io = Io_ok, except_update_io = Io_ok,
      except_notify_io = Io_ok\<rparr>"

definition failed_send_env :: exec_env where
  "failed_send_env = two_snapshots_env\<lparr>popen_send := Inr 1\<rparr>"

definition bad_stderr_env :: exec_env where
  "bad_stderr_env =
     two_snapshots_env\<lparr>popen_sink := Inr \<lparr>returncode = 0, stdout = [],
                                              stderr = [CHR 0xFF, CHR 0xFE]\<rparr>\<rparr>"

definition disk_full_env :: exec_env where
  "disk_full_env =
     two_snapshots_env\<lparr>zfs_list := Inr \<lparr>returncode = 0, stdout = [], stderr = []\<rparr>,
                        except_update_io := Write_json_fails ''No space left on device''\<rparr>"

text \<open>The records of the ledger that carry a given id.\<close>

definition records_of :: "int \<Rightarrow> storage \<Rightarrow> execution list" where
  "records_of eid s = filter (\<lambda>e. exec_id e = eid) (ledger_executions s)"

text \<open>
  The stored counter lies above every stored id (a history file that is absent or not JSON
  holds no record, and the counter then starts at 1).
\<close>

definition counter_above_ids :: "storage \<Rightarrow> bool" where
  "counter_above_ids s =
     (case history_file s of
        Json d \<Rightarrow>
          list_all (\<lambda>e. exec_id e < (case next_id d of None \<Rightarrow> 1 | Some n \<Rightarrow> n))
            (case executions d of None \<Rightarrow> [] | Some es \<Rightarrow> es)
      | _ \<Rightarrow> True)"


section \<open>Properties of the execution ledger\<close>

lemma str_int_examples: "str_int 22 = ''22'' \<and> str_int (- 5) = ''-5'' \<and> str_int 0 = ''0''"
  by code_simp

lemma create_ok:
  assumes "history_file s = Json d" "next_id d = Some k"
  shows "\<exists>s' d'. create_execution_record Io_ok now jid jname src tgt rtype s = (Inr k, s')
          \<and> history_file s' = Json d' \<and> next_id d' = Some (k + 1)
          \<and> executions d' = Some ((case executions d of None \<Rightarrow> [] | Some es \<Rightarrow> es)
                                      @ [new_execution k now jid jname src tgt rtype])"
  using assms by (simp add: create_execution_record_def Let_def)

text \<open>
  From a history whose counter is \<open>k\<close>, \<open>n\<close> creations return \<open>k, \<dots>, k + n - 1\<close> and append
  records with exactly these ids.
\<close>

lemma create_all_from:
  assumes "history_file s = Json d" "next_id d = Some k"
  shows "\<exists>s' d'. create_all args s = (Inr [k..k + int (length args) - 1], s')
          \<and> history_file s' = Json d' \<and> next_id d' = Some (k + int (length args))
          \<and> map exec_id (case executions d' of None \<Rightarrow> [] | Some es \<Rightarrow> es)
              = map exec_id (case executions d of None \<Rightarrow> [] | Some es \<Rightarrow> es)
                  @ [k..k + int (length args) - 1]"
  using assms
proof (induction args arbitrary: s d k)
  case Nil
  then show ?case by simp
next
  case (Cons a args)
  obtain now jid jname src tgt rtype where a: "a = (now, jid, jname, src, tgt, rtype)"
    by (cases a) auto
  from create_ok[OF Cons.prems, of now jid jname src tgt rtype]
  obtain s1 d1 where c: "create_execution_record Io_ok now jid jname src tgt rtype s = (Inr k, s1)"
    and h1: "history_file s1 = Json d1" and n1: "next_id d1 = Some (k + 1)"
    and e1: "executions d1 = Some ((case executions d of None \<Rightarrow> [] | Some es \<Rightarrow> es)
                                      @ [new_execution k now jid jname src tgt rtype])"
    by blast
  from Cons.IH[OF h1 n1]
  obtain s2 d2 where r: "create_all args s1 = (Inr [k + 1..k + 1 + int (length args) - 1], s2)"
    and h2: "history_file s2 = Json d2" and n2: "next_id d2 = Some (k + 1 + int (length args))"
    and e2: "map exec_id (case executions d2 of None \<Rightarrow> [] | Some es \<Rightarrow> es)
              = map exec_id (case executions d1 of None \<Rightarrow> [] | Some es \<Rightarrow> es)
                  @ [k + 1..k + 1 + int (length args) - 1]"
    by blast
  have u: "[k..k + int (length (a # args)) - 1] = k # [k + 1..k + 1 + int (length args) - 1]"
    by (simp add: upto_rec1 [of k] algebra_simps)
  have "create_all (a # args) s = (Inr [k..k + int (length (a # args)) - 1], s2)"
    using c r u by (simp add: a)
  moreover have "next_id d2 = Some (k + int (length (a # args)))"
    using n2 by (simp add: algebra_simps)
  moreover have "map exec_id (case executions d2 of None \<Rightarrow> [] | Some es \<Rightarrow> es)
              = map exec_id (case executions d of None \<Rightarrow> [] | Some es \<Rightarrow> es)
                  @ [k..k + int (length (a # args)) - 1]"
    using e2 e1 u by (simp add: new_execution_def)
  ultimately show ?case using h2 by blast
qed

lemma new_storage_history:
  "history_file new_storage = Json \<lparr>executions = Some [], next_id = Some 1\<rparr>"
  by (simp add: new_storage_def initialize_files_def empty_dir_def)

text \<open>
  Claim C9.  On the ledger of a service constructed on an empty data directory, \<open>n\<close>
  sequential calls of \<^verbatim>\<open>create_execution_record\<close> (whatever their arguments) all return,
  the ids returned are \<open>1, 2, \<dots>, n\<close> in call order, the records then in the ledger carry
  exactly these ids in this order, and the sequence is strictly increasing and without
  repeats.
\<close>

theorem C9_sequential_ids:
  "fst (create_all args new_storage) = Inr [1..int (length args)]
   \<and> map exec_id (ledger_executions (snd (create_all args new_storage))) = [1..int (length args)]
   \<and> distinct [1..int (length args)] \<and> sorted_wrt (<) [1..int (length args)]"
proof -
  from create_all_from[OF new_storage_history, of 1 args]
  obtain s' d' where r: "create_all args new_storage = (Inr [1..1 + int (length args) - 1], s')"
    and h: "history_file s' = Json d'"
    and e: "map exec_id (case executions d' of None \<Rightarrow> [] | Some es \<Rightarrow> es)
              = [1..1 + int (length args) - 1]"
    by auto
  have "sorted_wrt (<) [1..int (length args)]"
    by (simp add: sorted_wrt_upto)
  then show ?thesis using r h e by (simp add: ledger_executions_def)
qed

lemma update_first_nth:
  "i < length es \<Longrightarrow> P (es ! i) \<Longrightarrow> \<forall>j<i. \<not> P (es ! j)
     \<Longrightarrow> update_first P f es = es[i := f (es ! i)]"
proof (induction es arbitrary: i)
  case Nil
  then show ?case by simp
next
  case (Cons e es)
  show ?case
  proof (cases i)
    case 0
    with Cons.prems show ?thesis by simp
  next
    case (Suc k)
    with Cons.prems have "\<not> P e" by auto
    moreover have "update_first P f es = es[k := f (es ! k)]"
      using Cons.prems Suc by (intro Cons.IH) auto
    ultimately show ?thesis using Suc by simp
  qed
qed

lemma update_first_absent:
  "\<forall>e\<in>set es. \<not> P e \<Longrightarrow> update_first P f es = es"
  by (induction es) auto

lemma terminal_ledger_history:
  "history_file terminal_ledger = Json \<lparr>executions = Some
      [set_result ''success'' (Some 7) (Some 2) 0 (Some ''tank/data@s1'') None (Some [])
         (new_execution 1 5 None ''nightly'' ''tank/data'' ''backup/data'' ''local'')],
       next_id = Some 2\<rparr>"
  by (simp add: terminal_ledger_def update_execution_record_def create_execution_record_def
      new_storage_def initialize_files_def empty_dir_def Let_def)
     (simp add: new_execution_def)

text \<open>
  Claim C2, as the code has it.  \<^verbatim>\<open>update_execution_record\<close> makes no test of the current
  status: when the writes succeed, the first record of the ledger that carries the given id
  takes the status and the six result fields passed, whatever its status was (terminal or
  not); its id and start time stay, and every other entry of the ledger is unchanged.
\<close>

theorem C2_update_overwrites:
  assumes "history_file s = Json d" and "executions d = Some es"
    and "i < length es" and "exec_id (es ! i) = eid" and "\<forall>j<i. exec_id (es ! j) \<noteq> eid"
  shows "\<exists>s'. update_execution_record Io_ok eid st completed dur bytes snap err log s = (Inr (), s')
           \<and> ledger_executions s' = es[i := set_result st completed dur bytes snap err log (es ! i)]
           \<and> status (ledger_executions s' ! i) = st
           \<and> exec_id (ledger_executions s' ! i) = eid
           \<and> started_at (ledger_executions s' ! i) = started_at (es ! i)"
  using assms
  by (simp add: update_execution_record_def ledger_executions_def update_first_nth set_result_def)

theorem C2_update_overwrites_witness:
  "status (ledger_executions (snd (update_execution_record Io_ok 1 ''failure'' (Some 9) (Some 4) 0
       None (Some ''late'') (Some ''late'') terminal_ledger)) ! 0) = ''failure''"
proof -
  from C2_update_overwrites[OF terminal_ledger_history, of _ 0 1 "''failure''" "Some 9" "Some 4" 0
      None "Some ''late''" "Some ''late''"]
  show ?thesis by (auto simp: set_result_def new_execution_def)
qed

text \<open>
  Claim C2 as stated fails: an execution that the code itself created and completed with
  status \<open>success\<close> is updated again; the call returns normally and the record now reads
  \<open>failure\<close>.
\<close>

theorem C2_terminal_mutated:
  "map status (ledger_executions terminal_ledger) = [''success'']
   \<and> (case update_execution_record Io_ok 1 ''failure'' (Some 9) (Some 4) 0 None (Some ''late'')
             (Some ''late'') terminal_ledger of
         (r, s') \<Rightarrow> r = Inr () \<and> map status (ledger_executions s') = [''failure'']
                     \<and> ledger_executions s' \<noteq> ledger_executions terminal_ledger)"
  by (simp add: terminal_ledger_def update_execution_record_def create_execution_record_def
      new_storage_def initialize_files_def empty_dir_def ledger_executions_def set_result_def
      new_execution_def Let_def)

section \<open>Properties of the file writers\<close>

lemma tmp_differs: "suffix target \<noteq> ''.tmp'' \<Longrightarrow> with_suffix target ''.tmp'' \<noteq> target"
  by (cases target) auto

lemma write_json_states:
  assumes "suffix target \<noteq> ''.tmp''"
  shows "states_during (write_json_ops target d) fs =
     (let t = with_suffix target ''.tmp'';
          f1 = apply_op (Open_w t) fs;
          f2 = apply_op (Dump t d) f1;
          f3 = apply_op (Close t) f2;
          f4 = apply_op (Replace t target) f3
      in [fs, f1, f2, f3, f4])"
  by (simp add: states_during_def write_json_ops_def Let_def upt_rec [of 0] upt_rec [of 1]
      upt_rec [of 2] upt_rec [of 3] upt_rec [of 4]  numeral_2_eq_2 numeral_3_eq_3)

lemma write_json_atomic:
  assumes "suffix target \<noteq> ''.tmp''"
  shows "atomic_replace (write_json_ops target d) target d fs"
  using tmp_differs[OF assms]
  by (simp add: atomic_replace_def write_json_states[OF assms] Let_def write_out_def)


lemma write_json_final:
  assumes "suffix target \<noteq> ''.tmp''"
  shows "doc (run_ops (write_json_ops target d) fs target) = Json d"
    and "\<not> synced (run_ops (write_json_ops target d) fs target)"
    and "doc (run_ops (write_json_ops target d) fs (with_suffix target ''.tmp'')) = Missing"
  using tmp_differs[OF assms]
  by (simp_all add: write_json_ops_def Let_def no_file_def write_out_def)

text \<open>
  A \<^verbatim>\<open>_write_json\<close> that is cut short, at whichever call, leaves the target as it was: this
  is the net effect the ledger operations are given for a failed write.
\<close>

lemma write_json_cut_short:
  assumes "suffix target \<noteq> ''.tmp''" and "k < 4"
  shows "doc (run_ops (take k (write_json_ops target d)) fs target) = doc (fs target)"
proof -
  from assms(2) have "k = 0 \<or> k = 1 \<or> k = 2 \<or> k = 3" by arith
  then show ?thesis
    using tmp_differs[OF assms(1)]
    by (auto simp: write_json_ops_def Let_def write_out_def numeral_2_eq_2 numeral_3_eq_3)
qed

lemma write_json_calls:
  "Fsync p \<notin> set (write_json_ops target d)" "Flush p \<notin> set (write_json_ops target d)"
  by (simp_all add: write_json_ops_def Let_def)

lemma write_json_not_in_place:
  assumes "suffix target \<noteq> ''.tmp''"
  shows "\<not> edits_in_place (write_json_ops target d) target"
  using tmp_differs[OF assms]
  by (auto simp: edits_in_place_def write_json_ops_def Let_def)

lemma save_connections_final:
  "doc (run_ops (save_connections_ops cf d) fs cf) = Json d"
  "mode (run_ops (save_connections_ops cf d) fs cf) = owner_only"
  "synced (run_ops (save_connections_ops cf d) fs cf)"
  by (simp_all add: save_connections_ops_def write_out_def)

text \<open>
  Claim C4, as the code has it.  \<^verbatim>\<open>_write_json\<close> (every write of the ledger files): for a
  target whose suffix is not \<open>.tmp\<close>, the whole document goes to the temporary path, which
  is then renamed over the target; at every moment the target holds its old document or the
  new one, the target itself is never opened for writing, and no \<^verbatim>\<open>flush\<close> or \<^verbatim>\<open>fsync\<close> is
  called, so the renamed file has not been forced to the device.  \<^verbatim>\<open>_save_connections\<close>
  (every write of the registry file): the target itself is opened for writing and no rename
  is made; when all calls succeed the file holds the new document, has been fsynced, and has
  mode \<^verbatim>\<open>0o600\<close>.
\<close>

theorem C4_writers:
  "(suffix target \<noteq> ''.tmp'' \<longrightarrow>
      atomic_replace (write_json_ops target d) target d fs
      \<and> doc (run_ops (write_json_ops target d) fs target) = Json d
      \<and> \<not> edits_in_place (write_json_ops target d) target
      \<and> (\<forall>p. Fsync p \<notin> set (write_json_ops target d) \<and> Flush p \<notin> set (write_json_ops target d))
      \<and> \<not> synced (run_ops (write_json_ops target d) fs target))
   \<and> edits_in_place (save_connections_ops cf d') cf
   \<and> (\<forall>a b. Replace a b \<notin> set (save_connections_ops cf d'))
   \<and> doc (run_ops (save_connections_ops cf d') fs' cf) = Json d'
   \<and> synced (run_ops (save_connections_ops cf d') fs' cf)
   \<and> mode (run_ops (save_connections_ops cf d') fs' cf) = owner_only"
proof -
  have "edits_in_place (save_connections_ops cf d') cf"
    by (simp add: edits_in_place_def save_connections_ops_def)
  moreover have "\<forall>a b. Replace a b \<notin> set (save_connections_ops cf d')"
    by (simp add: save_connections_ops_def)
  ultimately show ?thesis
    by (simp add: write_json_atomic write_json_final write_json_calls write_json_not_in_place
      save_connections_final)
qed

theorem C4_writers_witness:
  "suffix history_path \<noteq> ''.tmp''
   \<and> atomic_replace (write_json_ops history_path empty_history) history_path empty_history
        (\<lambda>p. no_file)
   \<and> doc (run_ops (write_json_ops history_path empty_history) (\<lambda>p. no_file) history_path)
        = Json empty_history"
proof -
  have h: "suffix history_path \<noteq> ''.tmp''" by (simp add: history_path_def)
  from C4_writers[of history_path empty_history "\<lambda>p. no_file" connections_path no_connections
      "\<lambda>p. no_file"] h
  show ?thesis by simp
qed

text \<open>
  Claim C4 as stated fails.  The registry write is not an atomic replacement: after the first
  call of \<^verbatim>\<open>_save_connections\<close> the connections file, which held a document, is blank.  The
  ledger write calls no \<^verbatim>\<open>fsync\<close> on its temporary file before the rename.
\<close>

theorem C4_registry_write_not_atomic:
  "doc (example_disk connections_path) = Json no_connections
   \<and> doc (apply_op (Open_w connections_path) example_disk connections_path) = Blank
   \<and> \<not> atomic_replace (save_connections_ops connections_path
            \<lparr>connections = Some [example_connection]\<rparr>) connections_path
            \<lparr>connections = Some [example_connection]\<rparr> example_disk
   \<and> Fsync (with_suffix history_path ''.tmp'')
        \<notin> set (write_json_ops history_path \<lparr>executions = Some [], next_id = Some 1\<rparr>)"
  by (simp add: atomic_replace_def states_during_def save_connections_ops_def example_disk_def
      write_json_ops_def history_path_def upt_rec [of 0] upt_rec [of 1] Let_def)


section \<open>Properties of the connection registry\<close>


lemma load_connections_Inr:
  "returned (fst (load_connections f)) \<Longrightarrow> \<exists>d lines. load_connections f = (Inr d, lines)"
  by (cases f) auto

lemma load_connections_Inl:
  "\<not> returned (fst (load_connections f)) \<Longrightarrow> \<exists>e. load_connections f = (Inl e, [])"
  by (cases f) auto

lemma visible_of_doc:
  "visible_connections svc =
     (case fst (load_connections (doc (disk svc connections_path))) of
        Inl e \<Rightarrow> [] | Inr d \<Rightarrow> connection_list d)"
  by (cases "load_connections (doc (disk svc connections_path))";
      cases "fst (load_connections (doc (disk svc connections_path)))")
     (auto simp: visible_connections_def list_connections_def reload_def)

lemma visible_loaded:
  "find P (visible_connections svc) = Some c
     \<Longrightarrow> returned (fst (load_connections (doc (disk svc connections_path))))"
  by (cases "fst (load_connections (doc (disk svc connections_path)))")
     (auto simp: visible_of_doc)









lemma mark_fresh_tag:
  assumes "find (\<lambda>c. conn_id c = connection_id) (visible_connections svc) = Some conn"
    and "feature \<notin> set (tags conn)"
  shows "fst (mark_connection_used None now connection_id feature svc) = Inr ()"
    and "visible_connections (snd (mark_connection_used None now connection_id feature svc))
          = update_first (\<lambda>c. conn_id c = connection_id) (add_feature feature now)
              (visible_connections svc)"
proof -
  have ld: "returned (fst (load_connections (doc (disk svc connections_path))))"
    using assms(1) by (rule visible_loaded)
  obtain d lines where l: "load_connections (doc (disk svc connections_path)) = (Inr d, lines)"
    using load_connections_Inr[OF ld] by blast
  have v: "visible_connections svc = connection_list d"
    using l by (simp add: visible_connections_def list_connections_def reload_def)
  have f: "find (\<lambda>c. conn_id c = connection_id) (connection_list d) = Some conn"
    using assms v by simp
  then obtain cs where cs: "connections d = Some cs"
    by (cases "connections d") (auto simp: connection_list_def)
  show "fst (mark_connection_used None now connection_id feature svc) = Inr ()"
    using l f assms(2)
    by (simp add: mark_connection_used_def get_connection_def reload_def save_connections_def)
  show "visible_connections (snd (mark_connection_used None now connection_id feature svc))
          = update_first (\<lambda>c. conn_id c = connection_id) (add_feature feature now)
              (visible_connections svc)"
    using l f assms(2) cs
    by (auto simp: mark_connection_used_def get_connection_def reload_def save_connections_def
        v visible_connections_def list_connections_def save_connections_ops_def
        connection_list_def write_out_def split: option.splits)
qed











section \<open>Reading a malformed store\<close>

text \<open>
  Claim C8, as the code has it.  When a backing file holds text on which the JSON decoder
  raises \<^verbatim>\<open>json.JSONDecodeError\<close>, the read does not raise: \<^verbatim>\<open>_read_json\<close> returns the empty
  dict and drops the detail, \<^verbatim>\<open>_load_connections\<close> hands the detail to the logger and
  returns \<^verbatim>\<open>{"connections": []}\<close>, each exactly what it returns for a missing file.  The
  callers go on as on an empty store: \<^verbatim>\<open>list_connections\<close> returns the empty list, and
  \<^verbatim>\<open>create_execution_record\<close> assigns id 1 and replaces the file by a ledger that holds the
  new record only.  When the file holds bytes that are not UTF-8, or text nested too deeply,
  the read raises \<^verbatim>\<open>UnicodeDecodeError\<close> or \<^verbatim>\<open>RecursionError\<close>; neither reader catches these,
  and the callers raise them unchanged.
\<close>

theorem C8_malformed_reads_as_empty:
  "read_json dflt (Malformed detail) = read_json dflt Missing
   \<and> read_json dflt (Malformed detail) = Inr dflt
   \<and> fst (create_execution_record Io_ok now jid jname src tgt rtype
             (s\<lparr>history_file := Malformed detail\<rparr>)) = Inr 1
   \<and> ledger_executions (snd (create_execution_record Io_ok now jid jname src tgt rtype
             (s\<lparr>history_file := Malformed detail\<rparr>)))
       = [new_execution 1 now jid jname src tgt rtype]
   \<and> load_connections (Malformed detail)
       = (Inr no_connections, [''Failed to load connections: '' @ detail])
   \<and> fst (load_connections (Malformed detail)) = fst (load_connections Missing)
   \<and> fst (list_connections
             (svc\<lparr>disk := (disk svc)(connections_path := f\<lparr>doc := Malformed detail\<rparr>)\<rparr>)) = Inr []
   \<and> read_json dflt (Not_utf8 detail) = Inl (UnicodeDecodeError detail)
   \<and> read_json dflt (Too_deep detail) = Inl (RecursionError detail)
   \<and> fst (create_execution_record io now jid jname src tgt rtype
             (s\<lparr>history_file := Not_utf8 detail\<rparr>)) = Inl (UnicodeDecodeError detail)
   \<and> fst (create_execution_record io now jid jname src tgt rtype
             (s\<lparr>history_file := Too_deep detail\<rparr>)) = Inl (RecursionError detail)
   \<and> fst (load_connections (Not_utf8 detail)) = Inl (UnicodeDecodeError detail)
   \<and> fst (load_connections (Too_deep detail)) = Inl (RecursionError detail)
   \<and> fst (list_connections
             (svc\<lparr>disk := (disk svc)(connections_path := f\<lparr>doc := Not_utf8 detail\<rparr>)\<rparr>))
       = Inl (UnicodeDecodeError detail)
   \<and> fst (list_connections
             (svc\<lparr>disk := (disk svc)(connections_path := f\<lparr>doc := Too_deep detail\<rparr>)\<rparr>))
       = Inl (RecursionError detail)"
  by (simp add: ledger_executions_def empty_history_def list_connections_def reload_def
      connection_list_def no_connections_def create_execution_record_def Let_def)

text \<open>
  Claim C8 as stated fails: on a history file and a connections file that hold text that is
  not JSON, the two readers return normally, with empty data.
\<close>

theorem C8_no_error_raised:
  "read_json empty_history (Malformed ''Expecting value: line 1 column 1 (char 0)'')
     = Inr \<lparr>executions = None, next_id = None\<rparr>
   \<and> fst (load_connections (Malformed ''Expecting value: line 1 column 1 (char 0)''))
     = Inr \<lparr>connections = Some []\<rparr>"
  by (simp add: empty_history_def no_connections_def)

section \<open>Properties of key loading\<close>

lemma key_class_all: "(\<forall>c. P c) \<longleftrightarrow> P Ed25519Key \<and> P RSAKey \<and> P ECDSAKey \<and> P DSSKey"
proof
  assume "\<forall>c. P c" then show "P Ed25519Key \<and> P RSAKey \<and> P ECDSAKey \<and> P DSSKey" by simp
next
  assume a: "P Ed25519Key \<and> P RSAKey \<and> P ECDSAKey \<and> P DSSKey"
  show "\<forall>c. P c"
  proof
    fix c show "P c" using a by (cases c) simp_all
  qed
qed

lemma load_matches_spec:
  "load_private_key parse p = Inr k \<longleftrightarrow> spec_load_private_key parse p = Inr k"
  by (auto simp: load_private_key_def spec_load_private_key_def split: sum.splits)

lemma load_fails_iff:
  "(\<exists>e. load_private_key parse p = Inl e) \<longleftrightarrow> (\<forall>c. \<exists>e. parse c p = Inl e)"
  unfolding key_class_all
  by (auto simp: load_private_key_def split: sum.splits)

lemma load_all_fail:
  assumes "\<forall>c. \<exists>e. parse c p = Inl e"
  shows "load_private_key parse p = parse DSSKey p"
  using assms unfolding key_class_all
  by (auto simp: load_private_key_def split: sum.splits)

lemma test_key_auth_ed_only:
  "parse Ed25519Key p = Inl e \<Longrightarrow> \<not> test_key_auth parse session p"
  by (simp add: test_key_auth_def)

text \<open>
  Claim C5, as the code has it.  The loader of \<^verbatim>\<open>_create_ssh_client\<close> (fleet monitoring)
  returns a key exactly when the loader of the specification does, and the same key: it tries
  Ed25519, RSA, ECDSA, DSA in this order and the first success wins.  It raises exactly when
  all four parsers fail; what \<^verbatim>\<open>_create_ssh_client\<close> then raises is a plain \<^verbatim>\<open>Exception\<close>
  whose text is \<open>SSH key authentication failed:\<close> followed by the message of the DSA parser,
  and it raises the same kind of exception, with the connection's message, when a key was
  loaded and the connection fails.  \<^verbatim>\<open>_test_key_auth\<close> (connection service) tries the
  Ed25519 parser only and answers \<open>False\<close> when that parser fails.
\<close>

theorem C5_key_loading:
  "(load_private_key parse p = Inr k \<longleftrightarrow> spec_load_private_key parse p = Inr k)
   \<and> ((\<exists>e. load_private_key parse p = Inl e) \<longleftrightarrow> (\<forall>c. \<exists>e. parse c p = Inl e))
   \<and> ((\<forall>c. \<exists>e. parse c p = Inl e) \<and> p \<noteq> [] \<longrightarrow>
        (\<exists>e. parse DSSKey p = Inl e
           \<and> create_ssh_client parse connect_key connect_password decrypt
                \<lparr>auth_type = Some ''key'', ssh_key_path = Some p, srv_password = pw\<rparr>
              = Inl (Exception (''SSH key authentication failed: '' @ str_exc e))))
   \<and> (\<forall>k e. load_private_key parse p = Inr k \<and> connect_key k = Inl e \<and> p \<noteq> [] \<longrightarrow>
        create_ssh_client parse connect_key connect_password decrypt
                \<lparr>auth_type = Some ''key'', ssh_key_path = Some p, srv_password = pw\<rparr>
              = Inl (Exception (''SSH key authentication failed: '' @ str_exc e)))
   \<and> (\<forall>e. parse Ed25519Key p = Inl e \<longrightarrow> \<not> test_key_auth parse session p)"
proof (intro conjI allI impI)
  show "load_private_key parse p = Inr k \<longleftrightarrow> spec_load_private_key parse p = Inr k"
    by (rule load_matches_spec)
  show "(\<exists>e. load_private_key parse p = Inl e) \<longleftrightarrow> (\<forall>c. \<exists>e. parse c p = Inl e)"
    by (rule load_fails_iff)
next
  assume a: "(\<forall>c. \<exists>e. parse c p = Inl e) \<and> p \<noteq> []"
  then obtain e where e: "parse DSSKey p = Inl e" by blast
  from a have "load_private_key parse p = Inl e" using load_all_fail[of parse p] e by simp
  then show "\<exists>e. parse DSSKey p = Inl e
           \<and> create_ssh_client parse connect_key connect_password decrypt
                \<lparr>auth_type = Some ''key'', ssh_key_path = Some p, srv_password = pw\<rparr>
              = Inl (Exception (''SSH key authentication failed: '' @ str_exc e))"
    using a e by (simp add: create_ssh_client_def)
next
  fix k e
  assume "load_private_key parse p = Inr k \<and> connect_key k = Inl e \<and> p \<noteq> []"
  then show "create_ssh_client parse connect_key connect_password decrypt
                \<lparr>auth_type = Some ''key'', ssh_key_path = Some p, srv_password = pw\<rparr>
              = Inl (Exception (''SSH key authentication failed: '' @ str_exc e))"
    by (simp add: create_ssh_client_def)
next
  fix e
  assume "parse Ed25519Key p = Inl e"
  then show "\<not> test_key_auth parse session p" by (rule test_key_auth_ed_only)
qed

theorem C5_key_loading_witness:
  "(\<forall>c. \<exists>e. junk_file_parser c ''id_x'' = Inl e) \<and> ''id_x'' \<noteq> []
   \<and> create_ssh_client junk_file_parser (\<lambda>k. Inr ''client'') (\<lambda>pw. Inr ''client'') (\<lambda>c. Inr c)
        \<lparr>auth_type = Some ''key'', ssh_key_path = Some ''id_x'', srv_password = None\<rparr>
      = Inl (Exception ''SSH key authentication failed: not a valid DSA private key file'')
   \<and> load_private_key rsa_file_parser ''id_rsa'' = Inr (RSAKey, ''id_rsa'')
   \<and> create_ssh_client rsa_file_parser (\<lambda>k. Inl (OSError ''timed out'')) (\<lambda>pw. Inr ''client'')
        (\<lambda>c. Inr c)
        \<lparr>auth_type = Some ''key'', ssh_key_path = Some ''id_rsa'', srv_password = None\<rparr>
      = Inl (Exception ''SSH key authentication failed: timed out'')
   \<and> rsa_file_parser Ed25519Key ''id_rsa'' = Inl (Exception ''not a valid private key file'')
   \<and> \<not> test_key_auth rsa_file_parser (\<lambda>k. Inr ''test'') ''id_rsa''"
proof -
  have a: "\<forall>c. \<exists>e. junk_file_parser c ''id_x'' = Inl e"
    by (simp add: junk_file_parser_def)
  have b: "junk_file_parser DSSKey ''id_x'' = Inl (Exception ''not a valid DSA private key file'')"
    by (simp add: junk_file_parser_def)
  have c: "load_private_key rsa_file_parser ''id_rsa'' = Inr (RSAKey, ''id_rsa'')"
    by (simp add: load_private_key_def rsa_file_parser_def)
  have d: "rsa_file_parser Ed25519Key ''id_rsa'' = Inl (Exception ''not a valid private key file'')"
    by (simp add: rsa_file_parser_def)
  note t1 = C5_key_loading[of junk_file_parser "''id_x''" _ "\<lambda>k. Inr ''client''"
      "\<lambda>pw. Inr ''client''" "\<lambda>c. Inr c" None "\<lambda>k. Inr ''test''"]
  note t2 = C5_key_loading[of rsa_file_parser "''id_rsa''" _ "\<lambda>k. Inl (OSError ''timed out'')"
      "\<lambda>pw. Inr ''client''" "\<lambda>c. Inr c" None "\<lambda>k. Inr ''test''"]
  have e: "create_ssh_client junk_file_parser (\<lambda>k. Inr ''client'') (\<lambda>pw. Inr ''client'') (\<lambda>c. Inr c)
        \<lparr>auth_type = Some ''key'', ssh_key_path = Some ''id_x'', srv_password = None\<rparr>
      = Inl (Exception ''SSH key authentication failed: not a valid DSA private key file'')"
    using t1 a b by auto
  have f: "create_ssh_client rsa_file_parser (\<lambda>k. Inl (OSError ''timed out'')) (\<lambda>pw. Inr ''client'')
        (\<lambda>c. Inr c)
        \<lparr>auth_type = Some ''key'', ssh_key_path = Some ''id_rsa'', srv_password = None\<rparr>
      = Inl (Exception ''SSH key authentication failed: timed out'')"
    using t2 c by auto
  have g: "\<not> test_key_auth rsa_file_parser (\<lambda>k. Inr ''test'') ''id_rsa''"
    using t2 d by blast
  show ?thesis using a c d e f g by simp
qed

text \<open>
  Claim C5 as stated fails.  On a key file in RSA format the loader of the specification
  succeeds, yet \<^verbatim>\<open>_test_key_auth\<close> answers \<open>False\<close> although the session would print
  \<open>test\<close>: the RSA parser is never tried.  On a file in no known format the specification
  asks for \<open>KeyFormatUnsupported\<close>; the code raises a plain \<^verbatim>\<open>Exception\<close>, of the same kind
  and prefix as the one it raises for a key that loads and a connection that times out.
\<close>

theorem C5_rsa_key_not_loaded:
  "spec_load_private_key rsa_file_parser ''id_rsa'' = Inr (RSAKey, ''id_rsa'')
   \<and> \<not> test_key_auth rsa_file_parser (\<lambda>k. Inr ''test'') ''id_rsa''
   \<and> spec_load_private_key junk_file_parser ''id_x'' = Inl KeyFormatUnsupported
   \<and> create_ssh_client junk_file_parser (\<lambda>k. Inr ''client'') (\<lambda>pw. Inr ''client'') (\<lambda>c. Inr c)
        \<lparr>auth_type = Some ''key'', ssh_key_path = Some ''id_x'', srv_password = None\<rparr>
      = Inl (Exception ''SSH key authentication failed: not a valid DSA private key file'')
   \<and> create_ssh_client rsa_file_parser (\<lambda>k. Inl (OSError ''timed out'')) (\<lambda>pw. Inr ''client'')
        (\<lambda>c. Inr c)
        \<lparr>auth_type = Some ''key'', ssh_key_path = Some ''id_rsa'', srv_password = None\<rparr>
      = Inl (Exception ''SSH key authentication failed: timed out'')"
  by (simp add: spec_load_private_key_def rsa_file_parser_def junk_file_parser_def
      test_key_auth_def create_ssh_client_def load_private_key_def)


section \<open>Properties of provisioning\<close>



lemma reload_ok:
  assumes "returned (fst (reload svc))"
  shows "\<exists>d lines. reload svc = (Inr (), svc\<lparr>connections_data := d, error_log := error_log svc @ lines\<rparr>)"
proof -
  have "returned (fst (load_connections (doc (disk svc connections_path))))"
    using assms
    by (cases "load_connections (doc (disk svc connections_path))";
        cases "fst (load_connections (doc (disk svc connections_path)))")
       (auto simp: reload_def)
  then obtain d lines where "load_connections (doc (disk svc connections_path)) = (Inr d, lines)"
    using load_connections_Inr by blast
  then have "reload svc = (Inr (), svc\<lparr>connections_data := d, error_log := error_log svc @ lines\<rparr>)"
    by (simp add: reload_def)
  then show ?thesis by blast
qed

lemma save_fault_disk:
  "disk (snd (save_connections (Some (At_open, d)) svc)) = disk svc"
  "doc (disk (snd (save_connections (Some (At_dump, d)) svc)) connections_path) = Blank"
  "doc (disk (snd (save_connections (Some (At_flush, d)) svc)) connections_path) = Blank"
  "doc (disk (snd (save_connections (Some (At_fsync, d)) svc)) connections_path)
     = Json (connections_data svc)"
  "doc (disk (snd (save_connections (Some (At_close, d)) svc)) connections_path)
     = Json (connections_data svc)"
  "doc (disk (snd (save_connections (Some (At_chmod, d)) svc)) connections_path)
     = Json (connections_data svc)"
  by (simp_all add: save_connections_def save_connections_ops_def write_out_def
      numeral_2_eq_2 numeral_3_eq_3 eval_nat_numeral)

lemma save_connections_keeps:
  "key_files (snd (save_connections fault svc)) = key_files svc"
  "fst (save_connections (Some (st, d)) svc) = Inl (Exception (''Failed to save connections: '' @ d))"
  by (cases fault; auto simp: save_connections_def Let_def)
     (simp add: save_connections_def Let_def)



lemma cleanup_keys_facts:
  "disk (cleanup_keys env a b svc) = disk svc"
  "\<not> unlink_private_raises env \<Longrightarrow> \<not> unlink_public_raises env
     \<Longrightarrow> a \<notin> key_files (cleanup_keys env a b svc) \<and> b \<notin> key_files (cleanup_keys env a b svc)"
  by (auto simp: cleanup_keys_def Let_def)

lemma provision_steps_fails:
  assumes "provision_steps parse session env nm hst usr prt nts a b svc = (Inl e0, svc2)"
  shows "(\<not> copy_key_to_remote (copy_id env) (paramiko_copy env) \<or> \<not> test_key_auth parse session a
            \<longrightarrow> svc2 = svc)
       \<and> (copy_key_to_remote (copy_id env) (paramiko_copy env) \<and> test_key_auth parse session a
            \<longrightarrow> (\<exists>st d. save_fault env = Some (st, d))
                \<and> svc2 = snd (save_connections (save_fault env)
                     (svc\<lparr>connections_data := (connections_data svc)\<lparr>connections :=
                        Some (connection_list (connections_data svc) @
                          [\<lparr>conn_id = new_uuid env, name = nm, host = hst, port = prt,
                            username = usr, private_key_path = a, public_key_path = b,
                            fingerprint = fingerprint_found env, created_at = now_created env,
                            last_used = None, last_tested = Some (now_tested env),
                            c_status = ''active'', used_by = Some [], c_notes = nts\<rparr>])\<rparr>\<rparr>)))"
  using assms
  by (cases "save_fault env")
     (auto simp: provision_steps_def Let_def save_connections_def split: if_splits prod.splits)

text \<open>
  Claim C6, as the code has it.  In a run of \<^verbatim>\<open>create_connection\<close> whose keys were generated
  (the reload that opens the call returned and key generation succeeded) and which then
  raises: the handler unlinks both key files before the error (a plain
  \<^verbatim>\<open>Exception\<close> with the text \<open>Failed to create SSH connection:\<close> and the cause) propagates,
  so both are gone when no \<^verbatim>\<open>unlink\<close> raises; when the key could not be copied, when the key
  test failed, or when \<^verbatim>\<open>_save_connections\<close> failed at its \<^verbatim>\<open>open\<close>, the disk is as it was;
  when the dump or the flush failed, the connections file is left blank and the registry
  reads as empty; when \<^verbatim>\<open>fsync\<close>, \<^verbatim>\<open>close\<close> or \<^verbatim>\<open>chmod\<close> failed, the file holds the new
  connection.
\<close>

theorem C6_failed_provisioning:
  assumes "returned (fst (reload svc))" and "keygen env = Keygen_ok"
    and "create_connection parse session env nm hst usr pw prt nts svc = (Inl e, svc')"
  shows "(\<not> unlink_private_raises env \<and> \<not> unlink_public_raises env \<longrightarrow>
            keys_dir @ ''/'' @ new_uuid env \<notin> key_files svc'
            \<and> keys_dir @ ''/'' @ new_uuid env @ ''.pub'' \<notin> key_files svc')
       \<and> (\<not> copy_key_to_remote (copy_id env) (paramiko_copy env)
            \<or> \<not> test_key_auth parse session (keys_dir @ ''/'' @ new_uuid env)
            \<or> (\<exists>d. save_fault env = Some (At_open, d))
          \<longrightarrow> disk svc' = disk svc)
       \<and> (copy_key_to_remote (copy_id env) (paramiko_copy env)
            \<and> test_key_auth parse session (keys_dir @ ''/'' @ new_uuid env)
            \<and> (\<exists>d. save_fault env = Some (At_dump, d) \<or> save_fault env = Some (At_flush, d))
          \<longrightarrow> visible_connections svc' = [])
       \<and> (copy_key_to_remote (copy_id env) (paramiko_copy env)
            \<and> test_key_auth parse session (keys_dir @ ''/'' @ new_uuid env)
            \<and> (\<exists>d. save_fault env = Some (At_fsync, d) \<or> save_fault env = Some (At_close, d)
                     \<or> save_fault env = Some (At_chmod, d))
          \<longrightarrow> new_uuid env \<in> conn_id ` set (visible_connections svc'))
       \<and> (\<exists>m. e = Exception (''Failed to create SSH connection: '' @ m))"
proof -
  define a where "a = keys_dir @ ''/'' @ new_uuid env"
  define b where "b = keys_dir @ ''/'' @ new_uuid env @ ''.pub''"
  obtain d lines where r: "reload svc = (Inr (), svc\<lparr>connections_data := d, error_log := error_log svc @ lines\<rparr>)"
    using reload_ok[OF assms(1)] by blast
  define svcR where "svcR = svc\<lparr>connections_data := d, error_log := error_log svc @ lines\<rparr>"
  define written where "written = svcR\<lparr>key_files := key_files svcR \<union> {a, b}\<rparr>"
  have g: "generate_ssh_key (keygen env) (new_uuid env) svcR = (Inr (a, b), written)"
    using assms(2) by (simp add: generate_ssh_key_def a_def b_def written_def Let_def)
  obtain r2 svc2 where ps: "provision_steps parse session env nm hst usr prt nts a b written = (r2, svc2)"
    by (cases "provision_steps parse session env nm hst usr prt nts a b written") auto
  have cc: "create_connection parse session env nm hst usr pw prt nts svc =
     (case r2 of Inr cid \<Rightarrow> (Inr cid, svc2)
      | Inl e0 \<Rightarrow> (Inl (Exception (''Failed to create SSH connection: '' @ str_exc e0)),
                    cleanup_keys env a b svc2))"
    using r g ps by (simp add: create_connection_def svcR_def split: sum.splits)
  then obtain e0 where r2: "r2 = Inl e0"
    and e: "e = Exception (''Failed to create SSH connection: '' @ str_exc e0)"
    and s': "svc' = cleanup_keys env a b svc2"
    using assms(3) by (cases r2) auto
  note pf = provision_steps_fails[OF ps[unfolded r2] ]
  have dR: "disk written = disk svc" by (simp add: written_def svcR_def)
  have vR: "visible_connections written = visible_connections svc"
    by (simp add: visible_of_doc dR)
  have k: "\<not> unlink_private_raises env \<and> \<not> unlink_public_raises env \<longrightarrow>
            a \<notin> key_files svc' \<and> b \<notin> key_files svc'"
    using cleanup_keys_facts(2)[of env a b svc2] s' by blast
  have d1: "\<not> copy_key_to_remote (copy_id env) (paramiko_copy env)
            \<or> \<not> test_key_auth parse session a
            \<or> (\<exists>d. save_fault env = Some (At_open, d))
          \<longrightarrow> disk svc' = disk svc"
    using pf s' dR by (auto simp: cleanup_keys_facts(1) save_fault_disk(1))
  define nd where "nd = (connections_data written)\<lparr>connections :=
                        Some (connection_list (connections_data written) @
                          [\<lparr>conn_id = new_uuid env, name = nm, host = hst, port = prt,
                            username = usr, private_key_path = a, public_key_path = b,
                            fingerprint = fingerprint_found env, created_at = now_created env,
                            last_used = None, last_tested = Some (now_tested env),
                            c_status = ''active'', used_by = Some [], c_notes = nts\<rparr>])\<rparr>"
  have sv: "copy_key_to_remote (copy_id env) (paramiko_copy env) \<and> test_key_auth parse session a
      \<Longrightarrow> doc (disk svc' connections_path)
            = doc (disk (snd (save_connections (save_fault env) (written\<lparr>connections_data := nd\<rparr>)))
                 connections_path)"
    using pf s' by (simp add: cleanup_keys_facts(1) nd_def)
  have d2: "copy_key_to_remote (copy_id env) (paramiko_copy env)
            \<and> test_key_auth parse session a
            \<and> (\<exists>d. save_fault env = Some (At_dump, d) \<or> save_fault env = Some (At_flush, d))
          \<longrightarrow> visible_connections svc' = []"
  proof
    assume h: "copy_key_to_remote (copy_id env) (paramiko_copy env)
            \<and> test_key_auth parse session a
            \<and> (\<exists>d. save_fault env = Some (At_dump, d) \<or> save_fault env = Some (At_flush, d))"
    then have "doc (disk svc' connections_path) = Blank"
      using sv save_fault_disk(2,3) by (metis (no_types, lifting))
    then show "visible_connections svc' = []"
      by (simp add: visible_of_doc connection_list_def no_connections_def)
  qed
  have d3: "copy_key_to_remote (copy_id env) (paramiko_copy env)
            \<and> test_key_auth parse session a
            \<and> (\<exists>d. save_fault env = Some (At_fsync, d) \<or> save_fault env = Some (At_close, d)
                     \<or> save_fault env = Some (At_chmod, d))
          \<longrightarrow> new_uuid env \<in> conn_id ` set (visible_connections svc')"
  proof
    assume h: "copy_key_to_remote (copy_id env) (paramiko_copy env)
            \<and> test_key_auth parse session a
            \<and> (\<exists>d. save_fault env = Some (At_fsync, d) \<or> save_fault env = Some (At_close, d)
                     \<or> save_fault env = Some (At_chmod, d))"
    then have "doc (disk svc' connections_path) = Json nd"
      using sv save_fault_disk(4,5,6)[of _ "written\<lparr>connections_data := nd\<rparr>"]
      by (elim conjE exE disjE) simp_all
    then show "new_uuid env \<in> conn_id ` set (visible_connections svc')"
      by (simp add: visible_of_doc connection_list_def nd_def)
  qed
  show ?thesis
    using k d1 d2 d3 e unfolding a_def b_def by blast
qed


theorem C6_failed_provisioning_witness:
  "returned (fst (reload example_service))
   \<and> keygen wrong_password_env = Keygen_ok
   \<and> fst (create_connection ed25519_file_parser echo_session wrong_password_env
             ''nas'' ''10.0.0.9'' ''root'' ''guess'' 22 [] example_service)
       = Inl (Exception ''Failed to create SSH connection: Failed to copy SSH key to remote server. Check credentials and network connectivity.'')
   \<and> \<not> copy_key_to_remote (copy_id wrong_password_env) (paramiko_copy wrong_password_env)
   \<and> keys_dir @ ''/'' @ new_uuid wrong_password_env
        \<notin> key_files (snd (create_connection ed25519_file_parser echo_session wrong_password_env
             ''nas'' ''10.0.0.9'' ''root'' ''guess'' 22 [] example_service))
   \<and> disk (snd (create_connection ed25519_file_parser echo_session wrong_password_env
             ''nas'' ''10.0.0.9'' ''root'' ''guess'' 22 [] example_service))
       = disk example_service"
proof -
  let ?r = "create_connection ed25519_file_parser echo_session wrong_password_env
             ''nas'' ''10.0.0.9'' ''root'' ''guess'' 22 [] example_service"
  have k: "keygen wrong_password_env = Keygen_ok"
    and u: "\<not> unlink_private_raises wrong_password_env \<and> \<not> unlink_public_raises wrong_password_env"
    and c: "\<not> copy_key_to_remote (copy_id wrong_password_env) (paramiko_copy wrong_password_env)"
    by (simp_all add: wrong_password_env_def copy_key_to_remote_def)
  have f: "fst ?r = Inl (Exception ''Failed to create SSH connection: Failed to copy SSH key to remote server. Check credentials and network connectivity.'')"
    by (simp add: create_connection_def reload_def example_service_def
      generate_ssh_key_def wrong_password_env_def provision_steps_def copy_key_to_remote_def
      Let_def)
  then have e: "?r = (Inl (Exception ''Failed to create SSH connection: Failed to copy SSH key to remote server. Check credentials and network connectivity.''), snd ?r)"
    by (metis prod.collapse)
  have l: "returned (fst (reload example_service))"
    by (simp add: reload_def example_service_def)
  from C6_failed_provisioning[OF l k e] u c
  show ?thesis using l k f by blast
qed


text \<open>
  Claim C6 as stated fails.  Every step succeeds up to the \<^verbatim>\<open>chmod\<close> that ends
  \<^verbatim>\<open>_save_connections\<close>; that call raises.  \<^verbatim>\<open>create_connection\<close> raises, both key files
  have been removed, and the registry on disk, empty before, now lists the new connection,
  whose key paths name files that no longer exist.
\<close>

theorem C6_connection_visible_after_failure:
  "(case create_connection ed25519_file_parser echo_session chmod_fault_env
           ''nas'' ''10.0.0.9'' ''root'' ''secret'' 22 [] empty_service of
      (r, svc') \<Rightarrow>
        r = Inl (Exception
              ''Failed to create SSH connection: Failed to save connections: Operation not permitted'')
        \<and> key_files svc' = {}
        \<and> map conn_id (visible_connections svc') = [''u1'']
        \<and> map private_key_path (visible_connections svc') = [''~/.ssh/webzfs_connections/u1''])
   \<and> visible_connections empty_service = []"
  by code_simp



section \<open>Properties of the replication engine\<close>


lemma two_snapshots: "get_snapshots (zfs_list two_snapshots_env) = Inr [''tank/data@s1'', ''tank/data@s2'']"
  by code_simp

lemma decoded_log_returned: "returned (decoded_log raw) = returned (decode raw)"
  by (simp add: decoded_log_def decode_def)

lemma decoded_log_raises: "decode raw = Inl e \<Longrightarrow> decoded_log raw = Inl e"
  by (auto simp: decoded_log_def decode_def split: if_splits)

text \<open>
  Claim C7, as the code has it.  Once both processes of a pipeline have started (and, for the
  remote topology, a remote host is given), \<^verbatim>\<open>_execute_local_replication\<close> and
  \<^verbatim>\<open>_execute_remote_replication\<close> return a result exactly when the terminal process, the
  local receive or the remote session, exits with status zero and its captured standard
  error decodes as UTF-8.  After a non-zero exit they raise an \<^verbatim>\<open>Exception\<close> that carries the
  decoded standard error; whenever the standard error does not decode they raise the
  \<^verbatim>\<open>UnicodeDecodeError\<close> of \<^verbatim>\<open>decode()\<close>, after a zero exit too.  The exit status of the send
  process is not read: with any other status the outcome is the same, so a failed send with
  a receive that exits zero is a success.
\<close>

theorem C7_pipeline_outcome:
  assumes "popen_send env = Inr send_status" and "popen_sink env = Inr sink"
  shows "(returned (fst (execute_local_replication env send_cmd receive_cmd w))
            \<longleftrightarrow> returncode sink = 0 \<and> returned (decode (stderr sink)))
       \<and> (\<forall>text. returncode sink \<noteq> 0 \<and> decode (stderr sink) = Inr text \<longrightarrow>
            fst (execute_local_replication env send_cmd receive_cmd w)
              = Inl (Exception (''Receive failed: '' @ text)))
       \<and> (\<forall>e. decode (stderr sink) = Inl e \<longrightarrow>
            fst (execute_local_replication env send_cmd receive_cmd w) = Inl e)
       \<and> (truthy (remote_host opts) \<longrightarrow>
            (returned (fst (execute_remote_replication env send_cmd receive_cmd rtype opts w))
               \<longleftrightarrow> returncode sink = 0 \<and> returned (decode (stderr sink)))
            \<and> (\<forall>text. returncode sink \<noteq> 0 \<and> decode (stderr sink) = Inr text \<longrightarrow>
                 fst (execute_remote_replication env send_cmd receive_cmd rtype opts w)
                   = Inl (Exception (''Remote receive failed: '' @ text)))
            \<and> (\<forall>e. decode (stderr sink) = Inl e \<longrightarrow>
                 fst (execute_remote_replication env send_cmd receive_cmd rtype opts w) = Inl e))
       \<and> execute_local_replication (env\<lparr>popen_send := Inr other_status\<rparr>) send_cmd receive_cmd w
           = execute_local_replication env send_cmd receive_cmd w
       \<and> execute_remote_replication (env\<lparr>popen_send := Inr other_status\<rparr>) send_cmd receive_cmd
             rtype opts w
           = execute_remote_replication env send_cmd receive_cmd rtype opts w"
proof -
  have l: "fst (execute_local_replication env send_cmd receive_cmd w) =
      (if returncode sink \<noteq> 0
       then (case decode (stderr sink) of
               Inl e \<Rightarrow> Inl e
             | Inr text \<Rightarrow> Inl (Exception (''Receive failed: '' @ text)))
       else (case decoded_log (stderr sink) of
               Inl e \<Rightarrow> Inl e
             | Inr log \<Rightarrow> Inr \<lparr>t_bytes = 0, t_speed = ''N/A'', t_log_output = log\<rparr>))"
    using assms
    by (simp add: execute_local_replication_def Let_def split: sum.splits)
  have r: "truthy (remote_host opts) \<Longrightarrow>
      fst (execute_remote_replication env send_cmd receive_cmd rtype opts w) =
      (if returncode sink \<noteq> 0
       then (case decode (stderr sink) of
               Inl e \<Rightarrow> Inl e
             | Inr text \<Rightarrow> Inl (Exception (''Remote receive failed: '' @ text)))
       else (case decoded_log (stderr sink) of
               Inl e \<Rightarrow> Inl e
             | Inr log \<Rightarrow> Inr \<lparr>t_bytes = 0, t_speed = ''N/A'', t_log_output = log\<rparr>))"
    using assms
    by (simp add: execute_remote_replication_def Let_def split: sum.splits)
  have c: "returned (case decoded_log (stderr sink) of
               Inl e \<Rightarrow> Inl e
             | Inr log \<Rightarrow> Inr \<lparr>t_bytes = 0, t_speed = ''N/A'', t_log_output = log\<rparr>)
           = returned (decode (stderr sink))"
    using decoded_log_returned[of "stderr sink"]
    by (cases "decoded_log (stderr sink)") simp_all
  have n: "\<And>pre. \<not> returned (case decode (stderr sink) of
               Inl e \<Rightarrow> Inl e
             | Inr text \<Rightarrow> (Inl (Exception (pre @ text)) :: py_exception + transfer))"
    by (cases "decode (stderr sink)") simp_all
  have i1: "execute_local_replication (env\<lparr>popen_send := Inr other_status\<rparr>) send_cmd receive_cmd w
           = execute_local_replication env send_cmd receive_cmd w"
    using assms by (simp add: execute_local_replication_def Let_def)
  have i2: "execute_remote_replication (env\<lparr>popen_send := Inr other_status\<rparr>) send_cmd
             receive_cmd rtype opts w
           = execute_remote_replication env send_cmd receive_cmd rtype opts w"
    using assms by (simp add: execute_remote_replication_def Let_def)
  show ?thesis
    using c n i1 i2 by (auto simp: l r decoded_log_raises)
qed

theorem C7_pipeline_outcome_witness:
  "popen_send failed_send_env = Inr 1
   \<and> popen_sink failed_send_env = Inr \<lparr>returncode = 0, stdout = [], stderr = []\<rparr>
   \<and> returned (fst (execute_local_replication failed_send_env
                  [''zfs'', ''send'', ''-c'', ''-w'', ''tank/data@s2'']
                  [''zfs'', ''receive'', ''backup/data''] new_world))
   \<and> map_sum (\<lambda>e. ()) r_status
         (fst (execute_replication mail_off failed_send_env ''tank/data'' ''backup/data'' LOCAL
                 True False LZ4 None None no_options new_world)) = Inr ''success''
   \<and> map status (ledger_executions (store (snd
         (execute_replication mail_off failed_send_env ''tank/data'' ''backup/data'' LOCAL
                 True False LZ4 None None no_options new_world)))) = [''success'']"
proof -
  have a: "popen_send failed_send_env = Inr 1"
    and b: "popen_sink failed_send_env = Inr \<lparr>returncode = 0, stdout = [], stderr = []\<rparr>"
    by (simp_all add: failed_send_env_def two_snapshots_env_def)
  have c: "map_sum (\<lambda>e. ()) r_status
         (fst (execute_replication mail_off failed_send_env ''tank/data'' ''backup/data'' LOCAL
                 True False LZ4 None None no_options new_world)) = Inr ''success''"
    by code_simp
  have d: "map status (ledger_executions (store (snd
         (execute_replication mail_off failed_send_env ''tank/data'' ''backup/data'' LOCAL
                 True False LZ4 None None no_options new_world)))) = [''success'']"
    by code_simp
  have e: "returned (decode [])" by (simp add: decode_def)
  from C7_pipeline_outcome[OF a b]
  have "returned (fst (execute_local_replication failed_send_env
                  [''zfs'', ''send'', ''-c'', ''-w'', ''tank/data@s2'']
                  [''zfs'', ''receive'', ''backup/data''] new_world))"
    using e by simp
  then show ?thesis using a b c d by simp
qed

text \<open>
  Claim C7 as stated fails.  The receive process exits with status zero after writing two
  bytes that are not UTF-8 to its standard error: \<^verbatim>\<open>_execute_local_replication\<close> raises
  \<^verbatim>\<open>UnicodeDecodeError\<close>, and \<^verbatim>\<open>execute_replication\<close> returns and records a failure.
\<close>

theorem C7_zero_exit_reported_failure:
  "map_sum (\<lambda>e. ()) returncode (popen_sink bad_stderr_env) = Inr 0
   \<and> fst (execute_local_replication bad_stderr_env
            [''zfs'', ''send'', ''-c'', ''-w'', ''tank/data@s2'']
            [''zfs'', ''receive'', ''backup/data''] new_world)
       = Inl (UnicodeDecodeError ''utf-8 codec cannot decode the bytes'')
   \<and> map_sum (\<lambda>e. ()) r_status
         (fst (execute_replication mail_off bad_stderr_env ''tank/data'' ''backup/data'' LOCAL
                 True False LZ4 None None no_options new_world)) = Inr ''failure''
   \<and> map status (ledger_executions (store (snd
         (execute_replication mail_off bad_stderr_env ''tank/data'' ''backup/data'' LOCAL
                 True False LZ4 None None no_options new_world)))) = [''failure'']"
  by code_simp

text \<open>
  Claim C1 at a source with the snapshots \<open>tank/data@s1\<close> and \<open>tank/data@s2\<close>, replicated
  with \<open>incremental = True\<close>: the run succeeds with \<open>tank/data@s2\<close> as the transfer point, and
  the send command that is started is \<^verbatim>\<open>zfs send -c -w tank/data@s2\<close>, a full send; no
  \<^verbatim>\<open>-i tank/data@s1\<close> is passed.  The command is the same with \<open>incremental = False\<close>.  The
  dry run of \<^verbatim>\<open>estimate_transfer_size\<close> does pass the base.
\<close>

theorem C1_send_command_has_no_base:
  "(case execute_replication mail_off two_snapshots_env ''tank/data'' ''backup/data'' LOCAL
           True False LZ4 None None no_options new_world of
      (r, w') \<Rightarrow>
        map_sum (\<lambda>e. ()) (\<lambda>res. (r_status res, r_snapshot res)) r
          = Inr (''success'', Some ''tank/data@s2'')
        \<and> spawned w' =
            [ [''zfs'', ''list'', ''-t'', ''snapshot'', ''-H'', ''-o'', ''name'', ''-r'', ''tank/data''],
             [''zfs'', ''send'', ''-c'', ''-w'', ''tank/data@s2''],
             [''zfs'', ''receive'', ''backup/data''] ])
   \<and> build_send_command ''tank/data'' ''tank/data@s2'' True False LZ4
        = build_send_command ''tank/data'' ''tank/data@s2'' False False LZ4
   \<and> estimate_send_command [''tank/data@s1'', ''tank/data@s2''] True
        = [''zfs'', ''send'', ''-nv'', ''-i'', ''tank/data@s1'', ''tank/data@s2'']"
  by code_simp

lemma build_send_command_ignores_incremental:
  "build_send_command dataset snapshot incremental recursive compression
     = build_send_command dataset snapshot (\<not> incremental) recursive compression"
  by (simp add: build_send_command_def)



section \<open>The counter of the ledger lies above its ids\<close>

lemma update_first_ids: "(\<And>e. g (f e) = g e) \<Longrightarrow> map g (update_first P f es) = map g es"
  by (induction es) auto

lemma counter_above_ids_new: "counter_above_ids new_storage"
  by (simp add: counter_above_ids_def new_storage_def initialize_files_def empty_dir_def)

lemma counter_above_ids_create:
  assumes "counter_above_ids s"
    and "create_execution_record io now jid jname src tgt rtype s = (r, s')"
  shows "counter_above_ids s'
       \<and> (\<forall>eid. r = Inr eid \<longrightarrow> eid \<notin> exec_id ` set (ledger_executions s))"
  using assms
  by (cases "history_file s"; cases io)
     (force simp: create_execution_record_def Let_def counter_above_ids_def ledger_executions_def
        empty_history_def new_execution_def list_all_iff split: option.splits)+

lemma counter_above_ids_update:
  assumes "counter_above_ids s"
    and "update_execution_record io i st c du b sn er lo s = (r, s')"
  shows "counter_above_ids s'"
proof -
  have m: "\<And>es. map exec_id (update_first (\<lambda>e. exec_id e = i) (set_result st c du b sn er lo) es)
             = map exec_id es"
    by (rule update_first_ids) (simp add: set_result_def)
  have l: "\<And>es n. list_all (\<lambda>e. exec_id e < n)
              (update_first (\<lambda>e. exec_id e = i) (set_result st c du b sn er lo) es)
            = list_all (\<lambda>e. exec_id e < n) es"
  proof -
    fix es n
    have "list_all (\<lambda>e. exec_id e < n) es = list_all (\<lambda>x. x < n) (map exec_id es)" for es
      by (simp add: list_all_iff)
    then show "list_all (\<lambda>e. exec_id e < n)
              (update_first (\<lambda>e. exec_id e = i) (set_result st c du b sn er lo) es)
            = list_all (\<lambda>e. exec_id e < n) es"
      using m by metis
  qed
  show ?thesis
    using assms
    by (cases "history_file s"; cases io)
       (auto simp: update_execution_record_def Let_def counter_above_ids_def empty_history_def l
          split: option.splits)
qed

lemma counter_above_ids_log_notification:
  assumes "counter_above_ids s"
    and "log_notification io now i ntype rcpt subj bdy st err s = (r, s')"
  shows "counter_above_ids s'"
  using assms
  by (cases "notifications_file s"; cases io)
     (auto simp: log_notification_def Let_def counter_above_ids_def)


section \<open>What a run of the engine leaves behind\<close>

lemma create_result:
  assumes "create_execution_record io now jid jname src tgt rtype s = (Inr eid, s')"
  shows "\<exists>d'. history_file s' = Json d'
           \<and> executions d' = Some (ledger_executions s @ [new_execution eid now jid jname src tgt rtype])
           \<and> notifications_file s' = notifications_file s"
  using assms
  by (cases "history_file s"; cases io)
     (auto simp: create_execution_record_def Let_def ledger_executions_def empty_history_def
           split: option.splits)

lemma filter_update_first:
  assumes "\<And>e. P (f e) = P e"
  shows "filter P (update_first P f es) = update_first P f (filter P es)"
  using assms by (induction es) auto

lemma update_first_single:
  "filter P es = [e] \<Longrightarrow> (\<And>e. P (f e) = P e) \<Longrightarrow> filter P (update_first P f es) = [f e]"
  by (simp add: filter_update_first) (metis filter_eq_Cons_iff update_first.simps)

lemma set_result_id: "exec_id (set_result st c du b sn er lo e) = exec_id e"
  by (simp add: set_result_def)

lemma set_result_status: "status (set_result st c du b sn er lo e) = st"
  by (simp add: set_result_def)

lemma update_result:
  assumes "history_file s = Json d" and "executions d = Some es"
    and "update_execution_record io i st c du b sn er lo s = (r, s')"
  shows "notifications_file s' = notifications_file s
       \<and> (\<exists>d'. history_file s' = Json d'
              \<and> (executions d' = Some es
                   \<or> executions d' = Some (update_first (\<lambda>e. exec_id e = i)
                                             (set_result st c du b sn er lo) es))
              \<and> ((io = Io_ok \<or> r = Inr ()) \<longrightarrow> r = Inr ()
                    \<and> executions d' = Some (update_first (\<lambda>e. exec_id e = i)
                                             (set_result st c du b sn er lo) es)))"
  using assms
  by (cases io) (auto simp: update_execution_record_def Let_def)

lemma log_notification_result:
  assumes "log_notification io now i ntype rcpt subj bdy st err s = (r, s')"
  shows "history_file s' = history_file s
       \<and> ((returned (read_json empty_notifications (notifications_file s))) \<longrightarrow>
             (returned (read_json empty_notifications (notifications_file s'))) \<and> (io = Io_ok \<longrightarrow> r = Inr ()))"
  using assms
  by (cases io; cases "notifications_file s")
     (auto simp: log_notification_def Let_def)


lemma records_of_single:
  assumes "length (records_of eid s) = 1"
  obtains d es e where "history_file s = Json d" and "executions d = Some es"
    and "filter (\<lambda>e. exec_id e = eid) es = [e]"
proof -
  from assms obtain e where e: "records_of eid s = [e]"
    by (cases "records_of eid s") auto
  then have ne: "ledger_executions s \<noteq> []" by (auto simp: records_of_def)
  then obtain d where d: "history_file s = Json d"
    by (cases "history_file s") (auto simp: ledger_executions_def empty_history_def)
  with ne obtain es where es: "executions d = Some es"
    by (cases "executions d") (auto simp: ledger_executions_def)
  with d e have "filter (\<lambda>e. exec_id e = eid) es = [e]"
    by (simp add: records_of_def ledger_executions_def)
  with d es show ?thesis using that by blast
qed

lemma update_inv:
  assumes "length (records_of eid s) = 1"
    and "update_execution_record io eid st c du b sn er lo s = (r, s')"
  shows "length (records_of eid s') = 1 \<and> notifications_file s' = notifications_file s
       \<and> ((io = Io_ok \<or> r = Inr ()) \<longrightarrow> r = Inr () \<and> map status (records_of eid s') = [st])"
proof -
  from assms(1) obtain d es e where d: "history_file s = Json d" and es: "executions d = Some es"
    and f: "filter (\<lambda>e. exec_id e = eid) es = [e]"
    by (rule records_of_single)
  let ?f = "set_result st c du b sn er lo"
  have u: "filter (\<lambda>e. exec_id e = eid) (update_first (\<lambda>e. exec_id e = eid) ?f es) = [?f e]"
    using f by (rule update_first_single) (simp add: set_result_id)
  from update_result[OF d es assms(2)]
  obtain d' where n: "notifications_file s' = notifications_file s"
    and d': "history_file s' = Json d'"
    and alt: "executions d' = Some es
               \<or> executions d' = Some (update_first (\<lambda>e. exec_id e = eid) ?f es)"
    and ok: "(io = Io_ok \<or> r = Inr ()) \<longrightarrow> r = Inr ()
               \<and> executions d' = Some (update_first (\<lambda>e. exec_id e = eid) ?f es)"
    by blast
  have "length (records_of eid s') = 1"
    using alt d' f u by (auto simp: records_of_def ledger_executions_def)
  moreover have "(io = Io_ok \<or> r = Inr ()) \<longrightarrow> r = Inr () \<and> map status (records_of eid s') = [st]"
    using ok d' u by (auto simp: records_of_def ledger_executions_def set_result_status)
  ultimately show ?thesis using n by blast
qed

lemma log_notification_inv:
  assumes "log_notification io now i ntype rcpt subj bdy st err s = (r, s')"
  shows "records_of eid s' = records_of eid s
       \<and> ((returned (read_json empty_notifications (notifications_file s))) \<longrightarrow>
             (returned (read_json empty_notifications (notifications_file s'))) \<and> (io = Io_ok \<longrightarrow> r = Inr ()))"
  using log_notification_result[OF assms]
  by (simp add: records_of_def ledger_executions_def)

lemma local_store:
  "execute_local_replication env sc rc w = (r, w1) \<Longrightarrow> store w1 = store w \<and> attempts w1 = attempts w"
  by (auto simp: execute_local_replication_def Let_def split: sum.splits if_splits)

lemma remote_store:
  "execute_remote_replication env sc rc rtype opts w = (r, w1)
     \<Longrightarrow> store w1 = store w \<and> attempts w1 = attempts w"
  by (auto simp: execute_remote_replication_def Let_def split: sum.splits if_splits)

lemma transfer_step_store:
  assumes "transfer_step env source target rtype incremental recursive compression opts w = (r, w1)"
  shows "store w1 = store w \<and> attempts w1 = attempts w"
  using assms
  by (auto simp: transfer_step_def Let_def split: sum.splits if_splits prod.splits
           dest!: local_store remote_store)


lemma record_success_inv:
  assumes inv: "length (records_of eid (store w1)) = 1"
    and nr: "returned (read_json empty_notifications (notifications_file (store w1)))"
    and rs: "record_success mail env eid source target jname latest result w1 = (r, w2)"
  shows "length (records_of eid (store w2)) = 1
       \<and> (returned (read_json empty_notifications (notifications_file (store w2))))
       \<and> (\<forall>res. r = Inr res \<longrightarrow>
             r_status res = ''success'' \<and> r_execution_id res = eid
             \<and> map status (records_of eid (store w2)) = [''success'']
             \<and> (Success_path, eid) \<in> set (attempts w2))"
proof -
  obtain ru su where u: "update_execution_record (update_io env) eid ''success''
      (Some (end_time env)) (Some (end_time env - start_time env)) (t_bytes result)
      (Some latest) None (Some (t_log_output result)) (store w1) = (ru, su)"
    by (meson surj_pair)
  from update_inv[OF inv u]
  have i1: "length (records_of eid su) = 1"
    and n1: "notifications_file su = notifications_file (store w1)"
    and ok: "ru = Inr () \<longrightarrow> map status (records_of eid su) = [''success'']"
    by blast+
  show ?thesis
  proof (cases ru)
    case (Inl e)
    then have "r = Inl e" and "w2 = w1\<lparr>store := su\<rparr>"
      using rs u by (simp_all add: record_success_def on_store_def Let_def)
    then show ?thesis using i1 n1 nr by simp
  next
    case (Inr uu)
    then have st: "map status (records_of eid su) = [''success'']" using ok by simp
    define w3 where "w3 = w1\<lparr>store := su, attempts := attempts w1 @ [(Success_path, eid)]\<rparr>"
    show ?thesis
    proof (cases "send_job_success_notification mail")
      case (Sent recipients)
      obtain rl sl where l: "log_notification (notify_io env) (sent_time env) eid ''success''
          (join '', '' recipients)
          (''ZFS Replication Succeeded: '' @ display_name jname source target)
          ''Success notification sent'' ''sent'' None su = (rl, sl)"
        by (meson surj_pair)
      from log_notification_inv[OF l, of eid] n1 nr
      have i2: "records_of eid sl = records_of eid su"
        and n2: "returned (read_json empty_notifications (notifications_file sl))"
        by simp_all
      have w2: "w2 = w3\<lparr>store := sl\<rparr>"
        using rs u Inr Sent l
        by (cases rl) (simp_all add: record_success_def on_store_def Let_def w3_def)
      have "\<forall>res. r = Inr res \<longrightarrow> r_status res = ''success'' \<and> r_execution_id res = eid"
        using rs u Inr Sent l
        by (cases rl) (auto simp: record_success_def on_store_def Let_def)
      then show ?thesis using w2 i1 i2 n2 st by (simp add: w3_def)
    next
      case (Skipped m)
      then have "w2 = w3" and "\<forall>res. r = Inr res \<longrightarrow> r_status res = ''success'' \<and> r_execution_id res = eid"
        using rs u Inr by (auto simp: record_success_def on_store_def Let_def w3_def)
      then show ?thesis using i1 n1 nr st by (simp add: w3_def)
    next
      case (Failed err)
      then have "w2 = w3" and "\<forall>res. r = Inr res \<longrightarrow> r_status res = ''success'' \<and> r_execution_id res = eid"
        using rs u Inr by (auto simp: record_success_def on_store_def Let_def w3_def)
      then show ?thesis using i1 n1 nr st by (simp add: w3_def)
    qed
  qed
qed

lemma except_handler_returns:
  assumes inv: "length (records_of eid (store w1)) = 1"
    and nr: "returned (read_json empty_notifications (notifications_file (store w1)))"
    and io1: "except_update_io env = Io_ok" and io2: "except_notify_io env = Io_ok"
  shows "\<exists>res w2. except_handler mail env eid source target jname e w1 = (Inr res, w2)
       \<and> r_status res = ''failure'' \<and> r_execution_id res = eid
       \<and> map status (records_of eid (store w2)) = [''failure'']
       \<and> (Failure_path, eid) \<in> set (attempts w2)"
proof -
  obtain ru su where u: "update_execution_record (except_update_io env) eid ''failure''
      (Some (except_end_time env)) (Some (except_end_time env - start_time env)) 0 None
      (Some (str_exc e)) (Some (str_exc e)) (store w1) = (ru, su)"
    by (meson surj_pair)
  from update_inv[OF inv u] io1
  have ru: "ru = Inr ()"
    and n1: "notifications_file su = notifications_file (store w1)"
    and st: "map status (records_of eid su) = [''failure'']"
    by blast+
  define w2 where "w2 = w1\<lparr>store := su, attempts := attempts w1 @ [(Failure_path, eid)]\<rparr>"
  show ?thesis
  proof (cases "send_job_failure_notification mail")
    case (Skipped m)
    then show ?thesis
      using u ru st by (simp add: except_handler_def on_store_def Let_def)
  next
    case (Sent recipients)
    obtain rl sl where l: "log_notification (except_notify_io env) (sent_time env) eid ''failure''
          (join '', '' recipients)
          (''ZFS Replication Failed: '' @ display_name jname source target)
          (str_exc e) ''sent'' None su = (rl, sl)"
      by (meson surj_pair)
    from log_notification_inv[OF l, of eid] n1 nr io2
    have "records_of eid sl = records_of eid su" and "rl = Inr ()" by simp_all
    then show ?thesis
      using u ru st Sent l by (simp add: except_handler_def on_store_def Let_def)
  next
    case (Failed err)
    obtain rl sl where l: "log_notification (except_notify_io env) (sent_time env) eid ''failure''
          ''N/A''
          (''ZFS Replication Failed: '' @ display_name jname source target)
          (str_exc e) ''failed'' (Some err) su = (rl, sl)"
      by (meson surj_pair)
    from log_notification_inv[OF l, of eid] n1 nr io2
    have "records_of eid sl = records_of eid su" and "rl = Inr ()" by simp_all
    then show ?thesis
      using u ru st Failed l by (simp add: except_handler_def on_store_def Let_def)
  qed
qed


text \<open>
  Claim C3, as the code has it.  Take a call of \<^verbatim>\<open>execute_replication\<close> that has created
  its Execution entry, with an id that no older entry of the ledger carries (lemma
  \<open>counter_above_ids_create\<close>: so it is on every ledger whose counter lies above its ids, a
  property that holds of a new ledger and that every ledger operation keeps).  If the ledger
  writes of the exception handler succeed and the notification log can be read, then,
  whatever happens inside the \<^verbatim>\<open>try\<close> (an exception while listing snapshots or running
  the pipeline, a failed write while recording the success), the call returns a result and
  raises nothing; the result carries the execution id and the status \<open>success\<close> or
  \<open>failure\<close>; the ledger holds exactly one record with that id and its status is the status
  of the result, so it is no longer \<open>running\<close>; and the notification interface has been
  called on the path of that status.
\<close>

theorem C3_returns_when_handler_writes_succeed:
  assumes created: "create_execution_record (create_io env) (created_time env) jid
        (display_name jname source target) source target (replication_type_value rtype) (store w)
      = (Inr eid, s0)"
    and io1: "except_update_io env = Io_ok" and io2: "except_notify_io env = Io_ok"
    and nr: "returned (read_json empty_notifications (notifications_file (store w)))"
    and fresh: "eid \<notin> exec_id ` set (ledger_executions (store w))"
  shows "\<exists>res w'. execute_replication mail env source target rtype incremental recursive
                     compression jid jname opts w = (Inr res, w')
      \<and> r_execution_id res = eid
      \<and> map status (records_of eid (store w')) = [r_status res]
      \<and> ((r_status res = ''success'' \<and> (Success_path, eid) \<in> set (attempts w'))
           \<or> (r_status res = ''failure'' \<and> (Failure_path, eid) \<in> set (attempts w')))"
proof -
  define w0 where "w0 = w\<lparr>store := s0\<rparr>"
  from create_result[OF created]
  obtain d0 where "history_file s0 = Json d0"
    and "executions d0 = Some (ledger_executions (store w) @
           [new_execution eid (created_time env) jid (display_name jname source target) source
              target (replication_type_value rtype)])"
    and n0: "notifications_file s0 = notifications_file (store w)"
    by blast
  then have "records_of eid s0 = [new_execution eid (created_time env) jid
              (display_name jname source target) source target (replication_type_value rtype)]"
    using fresh
    by (auto simp: records_of_def ledger_executions_def new_execution_def filter_empty_conv)
  then have inv0: "length (records_of eid (store w0)) = 1" by (simp add: w0_def)
  have nr0: "returned (read_json empty_notifications (notifications_file (store w0)))"
    using n0 nr by (simp add: w0_def)
  have ex: "execute_replication mail env source target rtype incremental recursive compression
              jid jname opts w =
            (case try_body mail env eid source target rtype incremental recursive compression
                    jname opts w0 of
               (Inr res, w1) \<Rightarrow> (Inr res, w1)
             | (Inl e, w1) \<Rightarrow> except_handler mail env eid source target jname e w1)"
    using created by (simp add: execute_replication_def on_store_def w0_def)
  obtain rt w1 where t: "transfer_step env source target rtype incremental recursive compression
                           opts w0 = (rt, w1)"
    by (meson surj_pair)
  from transfer_step_store[OF t] inv0 nr0
  have inv1: "length (records_of eid (store w1)) = 1"
    and nr1: "returned (read_json empty_notifications (notifications_file (store w1)))"
    by simp_all
  show ?thesis
  proof (cases rt)
    case (Inl e)
    then have "try_body mail env eid source target rtype incremental recursive compression
                 jname opts w0 = (Inl e, w1)"
      using t by (simp add: try_body_def)
    then show ?thesis
      using ex except_handler_returns[OF inv1 nr1 io1 io2, of mail source target jname e]
      by auto
  next
    case (Inr p)
    obtain latest result where p: "p = (latest, result)" by (cases p) auto
    obtain r w2 where rs: "record_success mail env eid source target jname latest result w1 = (r, w2)"
      by (meson surj_pair)
    have tb: "try_body mail env eid source target rtype incremental recursive compression
                 jname opts w0 = (r, w2)"
      using t Inr p rs by (simp add: try_body_def)
    from record_success_inv[OF inv1 nr1 rs]
    have inv2: "length (records_of eid (store w2)) = 1"
      and nr2: "returned (read_json empty_notifications (notifications_file (store w2)))"
      and ok: "\<forall>res. r = Inr res \<longrightarrow>
             r_status res = ''success'' \<and> r_execution_id res = eid
             \<and> map status (records_of eid (store w2)) = [''success'']
             \<and> (Success_path, eid) \<in> set (attempts w2)"
      by blast+
    show ?thesis
    proof (cases r)
      case (Inl e)
      then show ?thesis
        using ex tb except_handler_returns[OF inv2 nr2 io1 io2, of mail source target jname e]
        by auto
    next
      case (Inr res)
      then show ?thesis using ex tb ok by auto
    qed
  qed
qed

theorem C3_returns_when_handler_writes_succeed_witness:
  "create_execution_record (create_io two_snapshots_env) (created_time two_snapshots_env) None
        (display_name None ''tank/data'' ''backup/data'') ''tank/data'' ''backup/data''
        (replication_type_value LOCAL) (store new_world)
      = (Inr 1, snd (create_execution_record Io_ok 100 None
                       (display_name None ''tank/data'' ''backup/data'') ''tank/data''
                       ''backup/data'' ''local'' new_storage))
   \<and> (\<exists>res w'. execute_replication mail_off two_snapshots_env ''tank/data'' ''backup/data'' LOCAL
                     True False LZ4 None None no_options new_world = (Inr res, w')
          \<and> r_execution_id res = 1
          \<and> map status (records_of 1 (store w')) = [r_status res])"
proof -
  have c: "create_execution_record (create_io two_snapshots_env) (created_time two_snapshots_env)
        None (display_name None ''tank/data'' ''backup/data'') ''tank/data'' ''backup/data''
        (replication_type_value LOCAL) (store new_world)
      = (Inr 1, snd (create_execution_record Io_ok 100 None
                       (display_name None ''tank/data'' ''backup/data'') ''tank/data''
                       ''backup/data'' ''local'' new_storage))"
    by (simp add: two_snapshots_env_def new_world_def create_execution_record_def
        new_storage_def initialize_files_def empty_dir_def Let_def)
  have io: "except_update_io two_snapshots_env = Io_ok" "except_notify_io two_snapshots_env = Io_ok"
    by (simp_all add: two_snapshots_env_def)
  have nr: "returned (read_json empty_notifications (notifications_file (store new_world)))"
    by (simp add: new_world_def new_storage_def initialize_files_def empty_dir_def)
  have fr: "1 \<notin> exec_id ` set (ledger_executions (store new_world))"
    by (simp add: new_world_def new_storage_def initialize_files_def empty_dir_def
        ledger_executions_def)
  from C3_returns_when_handler_writes_succeed[OF c io nr fr, of mail_off True False LZ4 no_options]
  obtain res w' where "execute_replication mail_off two_snapshots_env ''tank/data'' ''backup/data''
                     LOCAL True False LZ4 None None no_options new_world = (Inr res, w')"
    and "r_execution_id res = 1" and "map status (records_of 1 (store w')) = [r_status res]"
    by auto
  then have "\<exists>res w'. execute_replication mail_off two_snapshots_env ''tank/data'' ''backup/data''
                     LOCAL True False LZ4 None None no_options new_world = (Inr res, w')
          \<and> r_execution_id res = 1
          \<and> map status (records_of 1 (store w')) = [r_status res]"
    by auto
  with c show ?thesis by (rule conjI)
qed


text \<open>
  Claim C3 as stated fails.  The source has no snapshots, so the \<^verbatim>\<open>try\<close> raises; the
  handler's \<^verbatim>\<open>update_execution_record\<close> cannot write (the disk is full) and its exception
  is not caught: the call raises \<^verbatim>\<open>OSError\<close>, the record stays \<open>running\<close>, and no
  notification has been attempted.
\<close>

theorem C3_exception_propagates:
  "(case execute_replication mail_off disk_full_env ''tank/data'' ''backup/data'' LOCAL
           True False LZ4 None None no_options new_world of
      (r, w') \<Rightarrow>
        r = Inl (OSError ''No space left on device'')
        \<and> map (\<lambda>e. (exec_id e, status e)) (ledger_executions (store w')) = [(1, ''running'')]
        \<and> attempts w' = [])"
  by code_simp


end
